theory Spec2Isabelle
  imports Complex_Main
begin

section \<open>The cached request handler of next-boost (src/handler.ts)\<close>

text \<open>
  The development embeds \<^verbatim>\<open>matchRule\<close> and the request listener returned by
  \<^verbatim>\<open>wrap\<close>. One run of the listener on one request is modelled; the interleaving of
  several requests at the \<^verbatim>\<open>await\<close> points is not.

  JavaScript strings and \<^verbatim>\<open>Buffer\<close>s are byte strings (\<^typ>\<open>string\<close>), so
  \<^verbatim>\<open>Buffer.from\<close> on a string or on the serialised body is the identity. A header value
  of Node is a string or an array of strings. A TTL is a JavaScript number that is only
  passed on, never computed with (the test suite uses 0.5), hence \<^typ>\<open>real\<close>.
\<close>

subsection \<open>Data\<close>

type_synonym buffer = string

datatype header_value = HStr string | HArr "string list"

type_synonym headers = "string \<rightharpoonup> header_value"

text \<open>\<^verbatim>\<open>IncomingMessage\<close>: the three fields the handler reads, \<open>req_method\<close> being
  \<^verbatim>\<open>req.method\<close>. An absent \<^verbatim>\<open>req.url\<close> and the empty string are both falsy; the model
  has the empty string for both.\<close>

record request =
  req_method :: string
  url :: string
  headers :: headers

record URLCacheRule =
  regex :: string
  ttl :: real

text \<open>The status that \<^verbatim>\<open>serveCache\<close> returns: the three values of \<^verbatim>\<open>CacheStatus\<close>
  and \<^verbatim>\<open>'force'\<close>, which line 128 compares with.\<close>

datatype cache_status = Hit | Stale | Miss | Force

text \<open>The argument of \<^verbatim>\<open>renderer.render\<close> (line 108) and its result \<^verbatim>\<open>rv\<close>.\<close>

record render_args =
  path :: string
  arg_headers :: headers
  arg_method :: string

record render_response =
  statusCode :: int
  rv_headers :: headers
  body :: buffer

text \<open>\<^verbatim>\<open>HandlerConfig\<close> after \<^verbatim>\<open>mergeConfig\<close>: the options that \<^verbatim>\<open>wrap\<close> and
  \<^verbatim>\<open>matchRule\<close> read. An optional hook is \<open>None\<close> when it is not configured.\<close>

record HandlerConfig =
  quiet :: bool
  rules :: "URLCacheRule list"
  paramFilter :: "(string \<Rightarrow> bool) option"
  cacheKey :: "(request \<Rightarrow> string) option"
  headersFilter :: "(headers \<Rightarrow> headers) option"

text \<open>What makes the promise of the listener reject: the \<^verbatim>\<open>SyntaxError\<close> of
  \<^verbatim>\<open>new RegExp\<close> on a malformed pattern, and a rejection of \<^verbatim>\<open>renderer.render\<close>.\<close>

datatype error = SyntaxError string | RenderFailed string

text \<open>The response object: the payloads written to the caller, oldest first.\<close>

type_synonym response = "render_response list"

text \<open>Every call that the listener makes to a collaborator, in the order of the calls.\<close>

datatype event =
    KeyBuilder request
  | Plain request
  | ServeCache string bool
  | LockAdd string
  | Render render_args
  | Serve render_response
  | Log string string
  | CacheSet string buffer real
  | CacheDel string
  | LockDelete string

text \<open>The state one run acts on: the Cache Store, \<^verbatim>\<open>SYNC_LOCK\<close>, the response and the
  calls made so far.\<close>

record world =
  store :: "string \<rightharpoonup> (buffer \<times> real)"
  sync_lock :: "string set"
  res :: response
  calls :: "event list"

subsection \<open>Collaborators outside src/handler.ts\<close>

text \<open>
  The functions that \<^verbatim>\<open>handler.ts\<close> imports or receives are parameters of the model:
  \<^item> \<open>filterUrl\<close>, \<open>isZipped\<close> of \<^verbatim>\<open>./utils\<close>, \<open>serveCache\<close> of \<^verbatim>\<open>./cache-manager\<close>;
  \<^item> \<open>RegExp\<close>: \<^verbatim>\<open>new RegExp(source)\<close>, \<open>None\<close> when it throws, otherwise its
    \<^verbatim>\<open>test\<close>; \<open>gzipSync\<close>; \<open>JSON_stringify\<close>;
  \<^item> \<open>render\<close>: \<^verbatim>\<open>renderer.render\<close>, \<open>Inl\<close> when the promise rejects;
  \<^item> \<open>plainHandler\<close>: the uncached listener, which acts on the response.

  Of these calls, \<^verbatim>\<open>new RegExp\<close> and \<^verbatim>\<open>renderer.render\<close> can end the listener with an
  error. The hooks of the configuration, \<open>filterUrl\<close>, \<open>serveCache\<close>, \<open>serve\<close>, the
  logger, the plain handler and the Cache Store return normally in the model.
\<close>

text \<open>Modelled from the spec: the effect signature of \<^verbatim>\<open>serveCache\<close>
  (\<^verbatim>\<open>cache-manager.ts\<close>, not under src/), the field \<open>serveCache\<close> below. It consults the
  Cache Store and the single-flight set, may write the cached payload to the response, and
  returns the status and the stop flag (spec 4.2); it changes neither the store nor the
  set. What it returns is left open.\<close>

record env =
  filterUrl :: "string \<Rightarrow> (string \<Rightarrow> bool) option \<Rightarrow> string"
  RegExp :: "string \<Rightarrow> (string \<Rightarrow> bool) option"
  serveCache :: "(string \<rightharpoonup> (buffer \<times> real)) \<Rightarrow> string set \<Rightarrow> string \<Rightarrow> bool \<Rightarrow> response
                  \<Rightarrow> HandlerConfig \<Rightarrow> cache_status \<times> bool \<times> response"
  render :: "render_args \<Rightarrow> error + render_response"
  plainHandler :: "request \<Rightarrow> response \<Rightarrow> response"
  isZipped :: "headers \<Rightarrow> bool"
  gzipSync :: "buffer \<Rightarrow> buffer"
  JSON_stringify :: "headers \<Rightarrow> string"

text \<open>Modelled from the spec: \<^verbatim>\<open>set\<close> of the Cache Store, an external adapter of which
  \<^verbatim>\<open>handler.ts\<close> has the type only (\<^verbatim>\<open>CacheAdapter\<close>). It is an unconditional upsert
  (spec 6); the record keeps the TTL it is written with.\<close>

definition cache_set :: "string \<Rightarrow> buffer \<Rightarrow> real \<Rightarrow> world \<Rightarrow> world" where
  "cache_set k v t w = w\<lparr>store := (store w)(k \<mapsto> (v, t)), calls := calls w @ [CacheSet k v t]\<rparr>"

text \<open>Modelled from the spec: \<^verbatim>\<open>del\<close> of the Cache Store removes the entry, without an
  error when it is absent (spec 6).\<close>

definition cache_del :: "string \<Rightarrow> world \<Rightarrow> world" where
  "cache_del k w = w\<lparr>store := (store w)(k := None), calls := calls w @ [CacheDel k]\<rparr>"

text \<open>Modelled from the spec: \<^verbatim>\<open>serve\<close> of \<^verbatim>\<open>./utils\<close> (not under src/) writes the
  RenderResponse (status code, headers, body) to the caller: one response write.\<close>

definition serve :: "render_response \<Rightarrow> world \<Rightarrow> world" where
  "serve rv w = w\<lparr>res := res w @ [rv], calls := calls w @ [Serve rv]\<rparr>"

text \<open>\<^verbatim>\<open>!conf.quiet && log(start, status, req.url)\<close>; the time is not modelled.\<close>

definition log_unless_quiet :: "HandlerConfig \<Rightarrow> string \<Rightarrow> string \<Rightarrow> world \<Rightarrow> world" where
  "log_unless_quiet conf label u w = (if quiet conf then w else w\<lparr>calls := calls w @ [Log label u]\<rparr>)"

fun status_name :: "cache_status \<Rightarrow> string" where
  "status_name Hit = ''hit''"
| "status_name Stale = ''stale''"
| "status_name Miss = ''miss''"
| "status_name Force = ''force''"

subsection \<open>matchRule (lines 15--24)\<close>

text \<open>The loop over \<^verbatim>\<open>conf.rules\<close>. \<^verbatim>\<open>req.url && ...\<close> short-circuits: on a falsy URL no
  pattern is compiled and no rule returns.\<close>

fun scan_rules :: "(string \<Rightarrow> (string \<Rightarrow> bool) option) \<Rightarrow> URLCacheRule list \<Rightarrow> string
                    \<Rightarrow> error + (bool \<times> real)" where
  "scan_rules rx [] u = Inr (False, 0)"
| "scan_rules rx (rule # rs) u =
     (if u = [] then scan_rules rx rs u
      else case rx (regex rule) of
             None \<Rightarrow> Inl (SyntaxError (regex rule))
           | Some test \<Rightarrow> if test u then Inr (True, ttl rule) else scan_rules rx rs u)"

definition matchRule :: "env \<Rightarrow> HandlerConfig \<Rightarrow> request \<Rightarrow> error + (bool \<times> real)" where
  "matchRule e conf req =
     (if req_method req \<notin> set [''GET'', ''HEAD''] then Inr (False, - 1)
      else scan_rules (RegExp e) (rules conf) (url req))"

subsection \<open>toBuffer (lines 26--28)\<close>

definition toBuffer :: "env \<Rightarrow> headers \<Rightarrow> buffer" where
  "toBuffer e obj = JSON_stringify e obj"

subsection \<open>wrap (lines 78--136)\<close>

text \<open>Lines 119--122 and 125: what is saved.\<close>

definition headersToSave :: "HandlerConfig \<Rightarrow> render_response \<Rightarrow> headers" where
  "headersToSave conf rv =
     (case headersFilter conf of Some f \<Rightarrow> f (rv_headers rv) | None \<Rightarrow> rv_headers rv)"

definition buf :: "env \<Rightarrow> HandlerConfig \<Rightarrow> render_response \<Rightarrow> buffer" where
  "buf e conf rv =
     (if isZipped e (headersToSave conf rv) then body rv else gzipSync e (body rv))"

text \<open>Line 108: the request descriptor given to the Render Worker.\<close>

definition args_of :: "request \<Rightarrow> render_args" where
  "args_of req = \<lparr>path = url req, arg_headers = headers req, arg_method = req_method req\<rparr>"

text \<open>Lines 106--134: the part of the listener from \<^verbatim>\<open>SYNC_LOCK.add(key)\<close> to
  \<^verbatim>\<open>SYNC_LOCK.delete(key)\<close>. When \<^verbatim>\<open>render\<close> rejects, the \<^verbatim>\<open>await\<close> throws and the
  listener ends there: the source has no \<^verbatim>\<open>try\<close>.\<close>

definition render_and_write ::
  "env \<Rightarrow> HandlerConfig \<Rightarrow> request \<Rightarrow> string \<Rightarrow> cache_status \<Rightarrow> real \<Rightarrow> world
     \<Rightarrow> error option \<times> world" where
  "render_and_write e conf req key status t w =
     (let w1 = w\<lparr>sync_lock := insert key (sync_lock w), calls := calls w @ [LockAdd key]\<rparr>;
          args = args_of req;
          w2 = w1\<lparr>calls := calls w1 @ [Render args]\<rparr>
      in case render e args of
           Inl err \<Rightarrow> (Some err, w2)
         | Inr rv \<Rightarrow>
             (let w3 = (if status \<noteq> Stale then serve rv w2 else w2);
                  w4 = log_unless_quiet conf
                         (if status = Stale then ''update'' else status_name status) (url req) w3;
                  w5 = (if statusCode rv = 200 \<and> length (body rv) > 0 then
                          cache_set (''header:'' @ key) (toBuffer e (headersToSave conf rv)) t
                            (cache_set (''body:'' @ key) (buf e conf rv) t w4)
                        else if status = Force then
                          cache_del (''header:'' @ key) (cache_del (''body:'' @ key) w4)
                        else w4)
              in (None, w5\<lparr>sync_lock := sync_lock w5 - {key},
                           calls := calls w5 @ [LockDelete key]\<rparr>)))"

text \<open>Lines 80--82 and 92, named so that the statements below can refer to them:
  the request object after line 81, the key of line 82 and the forced flag of line 92.\<close>

definition filtered_request :: "env \<Rightarrow> HandlerConfig \<Rightarrow> request \<Rightarrow> request" where
  "filtered_request e conf req = req\<lparr>url := filterUrl e (url req) (paramFilter conf)\<rparr>"

definition cache_key :: "env \<Rightarrow> HandlerConfig \<Rightarrow> request \<Rightarrow> string" where
  "cache_key e conf req =
     (case cacheKey conf of
        Some f \<Rightarrow> f (filtered_request e conf req)
      | None \<Rightarrow> url (filtered_request e conf req))"

definition forced :: "request \<Rightarrow> bool" where
  "forced req = (headers req ''x-cache-status'' = Some (HStr ''update''))"

text \<open>The listener. \<open>req1\<close> is the request object after line 81, \<open>req2\<close> after line 87,
  \<open>w0\<close> the state once the key is derived. The result is the rejection of the returned
  promise, if any, and the state then.\<close>

definition wrap :: "env \<Rightarrow> HandlerConfig \<Rightarrow> request \<Rightarrow> world \<Rightarrow> error option \<times> world" where
  "wrap e conf req w =
     (let urlBeforeFilter = url req;
          req1 = filtered_request e conf req;
          key = cache_key e conf req;
          w0 = (case cacheKey conf of
                  Some f \<Rightarrow> w\<lparr>calls := calls w @ [KeyBuilder req1]\<rparr>
                | None \<Rightarrow> w)
      in case matchRule e conf req1 of
           Inl err \<Rightarrow> (Some err, w0)
         | Inr (matched, t) \<Rightarrow>
             (let req2 = req1\<lparr>url := urlBeforeFilter\<rparr>
              in if \<not> matched then
                   (None, w0\<lparr>res := plainHandler e req2 (res w0),
                              calls := calls w0 @ [Plain req2]\<rparr>)
                 else
                   (let fc = forced req2;
                        (status, stop, res1) =
                           serveCache e (store w0) (sync_lock w0) key fc (res w0) conf;
                        w1 = w0\<lparr>res := res1, calls := calls w0 @ [ServeCache key fc]\<rparr>
                    in if stop then (None, log_unless_quiet conf (status_name status) (url req2) w1)
                       else
                         (let w2 = (if status = Stale
                                    then log_unless_quiet conf (status_name status) (url req2) w1
                                    else w1)
                          in render_and_write e conf req2 key status t w2))))"

text \<open>The calls of one run: what the run appended to the calls made before it.\<close>

definition wrap_calls :: "env \<Rightarrow> HandlerConfig \<Rightarrow> request \<Rightarrow> world \<Rightarrow> event list" where
  "wrap_calls e conf req w = drop (length (calls w)) (calls (snd (wrap e conf req w)))"

text \<open>A rule matches a URL when its pattern compiles and tests true on it.\<close>

definition rule_matches :: "env \<Rightarrow> string \<Rightarrow> URLCacheRule \<Rightarrow> bool" where
  "rule_matches e u r = (case RegExp e (regex r) of Some test \<Rightarrow> test u | None \<Rightarrow> False)"

subsection \<open>The calls of a run, stage by stage\<close>

text \<open>The following functions list the calls that each stage of the listener makes.
  \<open>wrap_calls_eq\<close> below proves that \<open>handler_calls\<close> is what \<open>wrap\<close> appends.\<close>

definition key_builder_calls :: "env \<Rightarrow> HandlerConfig \<Rightarrow> request \<Rightarrow> event list" where
  "key_builder_calls e conf req =
     (case cacheKey conf of Some f \<Rightarrow> [KeyBuilder (filtered_request e conf req)] | None \<Rightarrow> [])"

definition log_calls :: "HandlerConfig \<Rightarrow> string \<Rightarrow> string \<Rightarrow> event list" where
  "log_calls conf label u = (if quiet conf then [] else [Log label u])"

definition write_calls ::
  "env \<Rightarrow> HandlerConfig \<Rightarrow> string \<Rightarrow> cache_status \<Rightarrow> real \<Rightarrow> render_response \<Rightarrow> event list" where
  "write_calls e conf key status t rv =
     (if statusCode rv = 200 \<and> body rv \<noteq> [] then
        [CacheSet (''body:'' @ key) (buf e conf rv) t,
         CacheSet (''header:'' @ key) (toBuffer e (headersToSave conf rv)) t]
      else if status = Force then [CacheDel (''body:'' @ key), CacheDel (''header:'' @ key)]
      else [])"

definition pipeline_calls ::
  "env \<Rightarrow> HandlerConfig \<Rightarrow> request \<Rightarrow> string \<Rightarrow> cache_status \<Rightarrow> real \<Rightarrow> event list" where
  "pipeline_calls e conf req key status t =
     [LockAdd key, Render (args_of req)]
     @ (case render e (args_of req) of
          Inl err \<Rightarrow> []
        | Inr rv \<Rightarrow>
            (if status = Stale then [] else [Serve rv])
            @ log_calls conf (if status = Stale then ''update'' else status_name status) (url req)
            @ write_calls e conf key status t rv @ [LockDelete key])"

definition handler_calls :: "env \<Rightarrow> HandlerConfig \<Rightarrow> request \<Rightarrow> world \<Rightarrow> event list" where
  "handler_calls e conf req w =
     key_builder_calls e conf req
     @ (case matchRule e conf (filtered_request e conf req) of
          Inl err \<Rightarrow> []
        | Inr (matched, t) \<Rightarrow>
            if \<not> matched then [Plain req]
            else (case serveCache e (store w) (sync_lock w) (cache_key e conf req) (forced req)
                         (res w) conf of
                    (status, stop, res1) \<Rightarrow>
                      ServeCache (cache_key e conf req) (forced req)
                      # (if stop then log_calls conf (status_name status) (url req)
                         else (if status = Stale then log_calls conf ''stale'' (url req) else [])
                              @ pipeline_calls e conf req (cache_key e conf req) status t)))"

text \<open>The state when \<^verbatim>\<open>serveCache\<close> has returned the response \<open>res1\<close>.\<close>

definition resolved :: "env \<Rightarrow> HandlerConfig \<Rightarrow> request \<Rightarrow> world \<Rightarrow> response \<Rightarrow> world" where
  "resolved e conf req w res1 =
     w\<lparr>res := res1,
       calls := calls w @ key_builder_calls e conf req
                @ [ServeCache (cache_key e conf req) (forced req)]\<rparr>"

subsection \<open>Concrete collaborators\<close>

text \<open>
  The statements below hold for every collaborator. The instances here serve to run the
  model on concrete requests.

  \<open>RegExp_fragment\<close> is \<^verbatim>\<open>new RegExp(source).test\<close> on the patterns built from literal
  characters, \<^verbatim>\<open>.\<close> and a \<^verbatim>\<open>*\<close> after one of these: an unanchored search, as
  JavaScript does without flags. A \<^verbatim>\<open>*\<close> with nothing to repeat throws in JavaScript
  and is \<open>None\<close> here. Patterns with any other metacharacter are outside the fragment;
  the instance rejects them and is never used on one.
\<close>

datatype atom = Lit char | AnyChar

definition metachars :: "char list" where
  "metachars = [CHR 0x5C, CHR ''^'', CHR ''$'', CHR ''*'', CHR ''+'', CHR ''?'', CHR ''('',
                CHR '')'', CHR ''['', CHR '']'', CHR ''{'', CHR ''}'', CHR ''|'']"

definition to_atom :: "char \<Rightarrow> atom" where
  "to_atom c = (if c = CHR ''.'' then AnyChar else Lit c)"

fun parse_pattern :: "string \<Rightarrow> (atom \<times> bool) list option" where
  "parse_pattern [] = Some []"
| "parse_pattern [c] = (if c \<in> set metachars then None else Some [(to_atom c, False)])"
| "parse_pattern (c # d # cs) =
     (if c \<in> set metachars then None
      else if d = CHR ''*'' then map_option ((#) (to_atom c, True)) (parse_pattern cs)
      else map_option ((#) (to_atom c, False)) (parse_pattern (d # cs)))"

fun atom_ok :: "atom \<Rightarrow> char \<Rightarrow> bool" where
  "atom_ok AnyChar c = (c \<noteq> CHR 0x0A \<and> c \<noteq> CHR 0x0D)"
| "atom_ok (Lit a) c = (a = c)"

fun match_here :: "(atom \<times> bool) list \<Rightarrow> string \<Rightarrow> bool" where
  "match_here [] s = True"
| "match_here ((a, False) # ps) [] = False"
| "match_here ((a, False) # ps) (c # s) = (atom_ok a c \<and> match_here ps s)"
| "match_here ((a, True) # ps) [] = match_here ps []"
| "match_here ((a, True) # ps) (c # s) =
     (match_here ps (c # s) \<or> (atom_ok a c \<and> match_here ((a, True) # ps) s))"

fun search :: "(atom \<times> bool) list \<Rightarrow> string \<Rightarrow> bool" where
  "search ps [] = match_here ps []"
| "search ps (c # s) = (match_here ps (c # s) \<or> search ps s)"

definition RegExp_fragment :: "string \<Rightarrow> (string \<Rightarrow> bool) option" where
  "RegExp_fragment source = map_option search (parse_pattern source)"

text \<open>Splitting a string at every occurrence of a character, and joining with one.\<close>

fun split_at :: "char \<Rightarrow> string \<Rightarrow> string list" where
  "split_at c [] = [[]]"
| "split_at c (x # xs) =
     (if x = c then [] # split_at c xs
      else (case split_at c xs of y # ys \<Rightarrow> (x # y) # ys | [] \<Rightarrow> [[x]]))"

fun join_with :: "char \<Rightarrow> string list \<Rightarrow> string" where
  "join_with c [] = []"
| "join_with c [p] = p"
| "join_with c (p # q # ps) = p @ c # join_with c (q # ps)"

text \<open>Modelled from the spec: \<^verbatim>\<open>filterUrl\<close> of \<^verbatim>\<open>./utils\<close> (not under src/). The
  \<^verbatim>\<open>paramFilter\<close> predicate on parameter names decides which query parameters survive
  (spec 6); without one the URL is unchanged. The test suite expects
  \<^verbatim>\<open>/params?p1=1&p2=2\<close> to become \<^verbatim>\<open>/params?p2=2\<close> when \<^verbatim>\<open>p1\<close> is filtered out.\<close>

definition filterUrl_model :: "string \<Rightarrow> (string \<Rightarrow> bool) option \<Rightarrow> string" where
  "filterUrl_model u pf =
     (case pf of
        None \<Rightarrow> u
      | Some keep \<Rightarrow>
          (let p0 = takeWhile (\<lambda>c. c \<noteq> CHR ''?'') u;
               qs = drop (length p0 + 1) u;
               params = filter (\<lambda>p. p \<noteq> [] \<and> keep (takeWhile (\<lambda>c. c \<noteq> CHR ''='') p))
                               (split_at CHR ''&'' qs)
           in if params = [] then p0 else p0 @ CHR ''?'' # join_with CHR ''&'' params))"

text \<open>Modelled from the spec: \<^verbatim>\<open>serveCache\<close> of \<^verbatim>\<open>./cache-manager\<close> (not under src/),
  as spec 4.2 orders it. A forced request is \<open>Force\<close> and writes nothing; otherwise the body
  record decides: absent is \<open>Miss\<close>, present is \<open>Stale\<close> or \<open>Hit\<close>, and both write the
  stored body; only \<open>Hit\<close> stops. Which keys have outlived their TTL is the store's
  classification, given here as the set \<open>expired\<close>.\<close>

definition serveCache_model ::
  "string set \<Rightarrow> (string \<rightharpoonup> (buffer \<times> real)) \<Rightarrow> string set \<Rightarrow> string \<Rightarrow> bool \<Rightarrow> response
     \<Rightarrow> HandlerConfig \<Rightarrow> cache_status \<times> bool \<times> response" where
  "serveCache_model expired st lock key fc r conf =
     (if fc then (Force, False, r)
      else case st (''body:'' @ key) of
             None \<Rightarrow> (Miss, False, r)
           | Some (b, t) \<Rightarrow>
               (let payload = \<lparr>statusCode = 200, rv_headers = Map.empty, body = b\<rparr>
                in if key \<in> expired then (Stale, False, r @ [payload])
                   else (Hit, True, r @ [payload])))"

text \<open>A render worker in the manner of the mock of the test suite: pages by path, one
  path on which the worker fails.\<close>

definition mock_render :: "render_args \<Rightarrow> error + render_response" where
  "mock_render a =
     (if path a = ''/hello-crash'' then Inl (RenderFailed ''worker exited'')
      else if path a = ''/hello-empty'' then
        Inr \<lparr>statusCode = 200, rv_headers = Map.empty, body = []\<rparr>
      else if path a = ''/hello-gone'' then
        Inr \<lparr>statusCode = 404, rv_headers = Map.empty, body = ''not found''\<rparr>
      else if path a = ''/hello-error'' then
        Inr \<lparr>statusCode = 500, rv_headers = Map.empty, body = ''error''\<rparr>
      else Inr \<lparr>statusCode = 200, rv_headers = Map.empty, body = ''hello''\<rparr>)"

definition mock_plain :: "request \<Rightarrow> response \<Rightarrow> response" where
  "mock_plain req r = r @ [\<lparr>statusCode = 404, rv_headers = Map.empty, body = []\<rparr>]"

text \<open>\<open>gzipSync\<close> and \<open>JSON_stringify\<close> stand in for the library functions: the compressed
  bytes and the JSON text are not computed.\<close>

definition mock_env :: "string set \<Rightarrow> env" where
  "mock_env expired =
     \<lparr>filterUrl = filterUrl_model,
      RegExp = RegExp_fragment,
      serveCache = serveCache_model expired,
      render = mock_render,
      plainHandler = mock_plain,
      isZipped = (\<lambda>h. h ''content-encoding'' = Some (HStr ''gzip'')),
      gzipSync = (\<lambda>b. ''gzip:'' @ b),
      JSON_stringify = (\<lambda>h. ''{}'')\<rparr>"

definition empty_world :: world where
  "empty_world = \<lparr>store = Map.empty, sync_lock = {}, res = [], calls = []\<rparr>"

text \<open>The configuration of the first test suite, \<^verbatim>\<open>rules: [{regex: '/hello.*', ttl: 0.5}]\<close>;
  one with a second rule behind it; one with a catch-all rule, the parameter filter of the
  test suite and its key builder; and one with the catch-all rule and the filter alone.\<close>

definition hello_conf :: HandlerConfig where
  "hello_conf = \<lparr>quiet = True,
                 rules = [\<lparr>regex = ''/hello.*'', ttl = 1 / 2\<rparr>],
                 paramFilter = None, cacheKey = None, headersFilter = None\<rparr>"

definition ordered_conf :: HandlerConfig where
  "ordered_conf = \<lparr>quiet = False,
                   rules = [\<lparr>regex = ''/hello.*'', ttl = 1 / 2\<rparr>, \<lparr>regex = ''/.*'', ttl = 60\<rparr>],
                   paramFilter = None, cacheKey = None, headersFilter = None\<rparr>"

definition params_conf :: HandlerConfig where
  "params_conf = \<lparr>quiet = False,
                  rules = [\<lparr>regex = ''.*'', ttl = 3600\<rparr>],
                  paramFilter = Some (\<lambda>p. p \<noteq> ''p1''),
                  cacheKey = Some (\<lambda>req. url req @ ''_001''),
                  headersFilter = None\<rparr>"

definition filter_conf :: HandlerConfig where
  "filter_conf = \<lparr>quiet = False,
                  rules = [\<lparr>regex = ''.*'', ttl = 3600\<rparr>],
                  paramFilter = Some (\<lambda>p. p \<noteq> ''p1''),
                  cacheKey = None, headersFilter = None\<rparr>"

text \<open>A rule whose pattern has a wildcard between two letters, behind the parameter filter.\<close>

definition dot_conf :: HandlerConfig where
  "dot_conf = \<lparr>quiet = True,
               rules = [\<lparr>regex = ''a.b'', ttl = 60\<rparr>],
               paramFilter = Some (\<lambda>p. p \<noteq> ''p1''),
               cacheKey = None, headersFilter = None\<rparr>"

definition get_request :: "string \<Rightarrow> request" where
  "get_request u = \<lparr>req_method = ''GET'', url = u, headers = Map.empty\<rparr>"

text \<open>A \<^verbatim>\<open>GET\<close> with the header \<^verbatim>\<open>x-cache-status: update\<close>, and a \<^verbatim>\<open>DELETE\<close>.\<close>

definition update_request :: "string \<Rightarrow> request" where
  "update_request u =
     \<lparr>req_method = ''GET'', url = u, headers = [''x-cache-status'' \<mapsto> HStr ''update'']\<rparr>"

definition delete_request :: "string \<Rightarrow> request" where
  "delete_request u = \<lparr>req_method = ''DELETE'', url = u, headers = Map.empty\<rparr>"

text \<open>A state in which both records of a key are in the store.\<close>

definition cached_world :: "string \<Rightarrow> world" where
  "cached_world key =
     \<lparr>store = [''body:'' @ key \<mapsto> (''gzip:old'', 1 / 2), ''header:'' @ key \<mapsto> (''{}'', 1 / 2)],
      sync_lock = {}, res = [], calls = []\<rparr>"

section \<open>The listener, branch by branch\<close>

lemma filtered_restore: "(filtered_request e conf req)\<lparr>url := url req\<rparr> = req"
  by (simp add: filtered_request_def)

lemma log_unless_quiet_eq:
  "log_unless_quiet conf label u w = w\<lparr>calls := calls w @ log_calls conf label u\<rparr>"
  by (simp add: log_unless_quiet_def log_calls_def)

lemma wrap_rejected:
  "matchRule e conf (filtered_request e conf req) = Inl err \<Longrightarrow>
   wrap e conf req w = (Some err, w\<lparr>calls := calls w @ key_builder_calls e conf req\<rparr>)"
  by (simp add: wrap_def key_builder_calls_def split: option.splits)

lemma wrap_unmatched:
  "matchRule e conf (filtered_request e conf req) = Inr (False, t) \<Longrightarrow>
   wrap e conf req w =
     (None, w\<lparr>res := plainHandler e req (res w),
               calls := calls w @ key_builder_calls e conf req @ [Plain req]\<rparr>)"
  by (simp add: wrap_def key_builder_calls_def filtered_restore split: option.splits)

lemma wrap_stop:
  "matchRule e conf (filtered_request e conf req) = Inr (True, t) \<Longrightarrow>
   serveCache e (store w) (sync_lock w) (cache_key e conf req) (forced req) (res w) conf
     = (status, True, res1) \<Longrightarrow>
   wrap e conf req w =
     (None, log_unless_quiet conf (status_name status) (url req) (resolved e conf req w res1))"
  by (simp add: wrap_def Let_def key_builder_calls_def filtered_restore resolved_def
        split: option.splits)

lemma wrap_render:
  "matchRule e conf (filtered_request e conf req) = Inr (True, t) \<Longrightarrow>
   serveCache e (store w) (sync_lock w) (cache_key e conf req) (forced req) (res w) conf
     = (status, False, res1) \<Longrightarrow>
   wrap e conf req w =
     render_and_write e conf req (cache_key e conf req) status t
       (if status = Stale
        then log_unless_quiet conf (status_name status) (url req) (resolved e conf req w res1)
        else resolved e conf req w res1)"
  by (simp add: wrap_def Let_def key_builder_calls_def filtered_restore resolved_def
        split: option.splits)

lemma rw_rejected:
  "render e (args_of req) = Inl err \<Longrightarrow>
   render_and_write e conf req key status t w =
     (Some err, w\<lparr>sync_lock := insert key (sync_lock w),
                   calls := calls w @ [LockAdd key, Render (args_of req)]\<rparr>)"
  by (simp add: render_and_write_def)

lemma rw_returned:
  assumes "render e (args_of req) = Inr rv"
  shows "fst (render_and_write e conf req key status t w) = None"
    and "calls (snd (render_and_write e conf req key status t w)) =
           calls w @ [LockAdd key, Render (args_of req)]
           @ (if status = Stale then [] else [Serve rv])
           @ log_calls conf (if status = Stale then ''update'' else status_name status) (url req)
           @ write_calls e conf key status t rv @ [LockDelete key]"
    and "res (snd (render_and_write e conf req key status t w)) =
           (if status = Stale then res w else res w @ [rv])"
    and "sync_lock (snd (render_and_write e conf req key status t w)) = sync_lock w - {key}"
    and "store (snd (render_and_write e conf req key status t w)) =
           (if statusCode rv = 200 \<and> body rv \<noteq> [] then
              (store w)(''body:'' @ key \<mapsto> (buf e conf rv, t),
                        ''header:'' @ key \<mapsto> (toBuffer e (headersToSave conf rv), t))
            else if status = Force then
              (store w)(''body:'' @ key := None, ''header:'' @ key := None)
            else store w)"
  using assms
  by (simp_all add: render_and_write_def Let_def log_unless_quiet_eq serve_def cache_set_def
        cache_del_def write_calls_def)

lemma rw_calls:
  "calls (snd (render_and_write e conf req key status t w)) =
     calls w @ pipeline_calls e conf req key status t"
proof (cases "render e (args_of req)")
  case (Inl err)
  then show ?thesis
    using rw_rejected [of e req err conf key status t w]
    by (simp add: pipeline_calls_def)
next
  case (Inr rv)
  then show ?thesis
    using rw_returned(2) [of e req rv conf key status t w]
    by (simp add: pipeline_calls_def)
qed

lemma wrap_calls_eq: "wrap_calls e conf req w = handler_calls e conf req w"
proof (cases "matchRule e conf (filtered_request e conf req)")
  case (Inl err)
  then show ?thesis
    by (simp add: wrap_calls_def handler_calls_def wrap_rejected)
next
  case (Inr mt)
  obtain matched t where mt: "mt = (matched, t)" by (cases mt)
  obtain status stop res1 where sc:
    "serveCache e (store w) (sync_lock w) (cache_key e conf req) (forced req) (res w) conf
       = (status, stop, res1)"
    by (cases "serveCache e (store w) (sync_lock w) (cache_key e conf req) (forced req) (res w) conf")
  show ?thesis
  proof (cases matched)
    case False
    with Inr mt show ?thesis
      by (simp add: wrap_calls_def handler_calls_def wrap_unmatched)
  next
    case True
    have m: "matchRule e conf (filtered_request e conf req) = Inr (True, t)"
      using Inr mt True by simp
    show ?thesis
    proof (cases stop)
      case True
      with m sc show ?thesis
        by (simp add: wrap_calls_def handler_calls_def wrap_stop [OF m] log_unless_quiet_eq
              resolved_def)
    next
      case False
      with m sc show ?thesis
        by (simp add: wrap_calls_def handler_calls_def wrap_render [OF m] rw_calls
              log_unless_quiet_eq resolved_def)
    qed
  qed
qed


section \<open>Evaluation and the rule scan\<close>

lemmas mock_defs =
  mock_env_def hello_conf_def ordered_conf_def params_conf_def filter_conf_def dot_conf_def get_request_def
  update_request_def delete_request_def empty_world_def cached_world_def
  RegExp_fragment_def metachars_def to_atom_def filterUrl_model_def serveCache_model_def
  mock_render_def mock_plain_def

lemmas handler_defs =
  matchRule_def filtered_request_def cache_key_def forced_def args_of_def
  headersToSave_def buf_def toBuffer_def rule_matches_def

lemmas run_defs =
  wrap_calls_def wrap_def render_and_write_def Let_def serve_def cache_set_def cache_del_def
  log_unless_quiet_def

lemmas calls_defs =
  handler_calls_def key_builder_calls_def log_calls_def write_calls_def pipeline_calls_def

lemma ex_triple: "\<exists>a b c. (c, b, a) = x"
  by (metis prod_cases3)

lemma scan_rules_find:
  "u \<noteq> [] \<Longrightarrow> \<forall>r \<in> set rs. RegExp e (regex r) \<noteq> None \<Longrightarrow>
   scan_rules (RegExp e) rs u =
     Inr (case find (rule_matches e u) rs of Some r \<Rightarrow> (True, ttl r) | None \<Rightarrow> (False, 0))"
  by (induction rs) (auto simp: rule_matches_def)

lemma scan_rules_empty_url: "scan_rules rx rs [] = Inr (False, 0)"
  by (induction rs) auto

lemma scan_rules_none:
  "\<forall>r \<in> set rs. \<exists>test. rx (regex r) = Some test \<and> \<not> test u \<Longrightarrow>
   scan_rules rx rs u = Inr (False, 0)"
  by (induction rs) auto

lemma scan_rules_matched:
  "scan_rules (RegExp e) rs u = Inr (True, t) \<Longrightarrow>
   \<exists>r \<in> set rs. rule_matches e u r \<and> ttl r = t"
  by (induction rs) (auto simp: rule_matches_def split: if_splits option.splits)

lemma matchRule_unmatched:
  assumes "req_method req \<notin> {''GET'', ''HEAD''} \<or>
           (\<forall>r \<in> set (rules conf). \<exists>test. RegExp e (regex r) = Some test \<and> \<not> test (url req))"
  shows "\<exists>t. matchRule e conf req = Inr (False, t)"
  using assms by (auto simp: matchRule_def scan_rules_none)

lemma matchRule_matched:
  "matchRule e conf req = Inr (True, t) \<Longrightarrow>
   \<exists>r \<in> set (rules conf). rule_matches e (url req) r \<and> ttl r = t"
  by (auto simp: matchRule_def scan_rules_matched split: if_splits)
section \<open>The state after a matched request\<close>

lemma wrap_res:
  assumes "matchRule e conf (filtered_request e conf req) = Inr (True, t)"
    and "serveCache e (store w) (sync_lock w) (cache_key e conf req) (forced req) (res w) conf
           = (status, stop, res1)"
  shows "res (snd (wrap e conf req w)) =
           (if stop then res1
            else case render e (args_of req) of
                   Inl err \<Rightarrow> res1
                 | Inr rv \<Rightarrow> if status = Stale then res1 else res1 @ [rv])"
proof (cases stop)
  case True
  then show ?thesis
    using wrap_stop [OF assms(1), of w status res1] assms(2)
    by (simp add: log_unless_quiet_eq resolved_def)
next
  case False
  then have w: "wrap e conf req w =
     render_and_write e conf req (cache_key e conf req) status t
       (if status = Stale
        then log_unless_quiet conf (status_name status) (url req) (resolved e conf req w res1)
        else resolved e conf req w res1)"
    using wrap_render [OF assms(1), of w status res1] assms(2) by simp
  show ?thesis
  proof (cases "render e (args_of req)")
    case (Inl err)
    then show ?thesis
      using False by (simp add: w rw_rejected log_unless_quiet_eq resolved_def)
  next
    case (Inr rv)
    then show ?thesis
      using False by (simp add: w rw_returned(3) log_unless_quiet_eq resolved_def)
  qed
qed

lemma wrap_store:
  assumes "matchRule e conf (filtered_request e conf req) = Inr (True, t)"
    and "serveCache e (store w) (sync_lock w) (cache_key e conf req) (forced req) (res w) conf
           = (status, False, res1)"
    and "render e (args_of req) = Inr rv"
  shows "store (snd (wrap e conf req w)) =
           (if statusCode rv = 200 \<and> body rv \<noteq> [] then
              (store w)(''body:'' @ cache_key e conf req \<mapsto> (buf e conf rv, t),
                        ''header:'' @ cache_key e conf req
                          \<mapsto> (toBuffer e (headersToSave conf rv), t))
            else if status = Force then
              (store w)(''body:'' @ cache_key e conf req := None,
                        ''header:'' @ cache_key e conf req := None)
            else store w)"
  using assms
  by (simp add: wrap_render rw_returned(5) log_unless_quiet_eq resolved_def)

lemma wrap_write_calls:
  assumes "matchRule e conf (filtered_request e conf req) = Inr (True, t)"
    and "serveCache e (store w) (sync_lock w) (cache_key e conf req) (forced req) (res w) conf
           = (status, False, res1)"
    and "render e (args_of req) = Inr rv"
  shows "wrap_calls e conf req w =
           key_builder_calls e conf req
           @ [ServeCache (cache_key e conf req) (forced req)]
           @ (if status = Stale then log_calls conf ''stale'' (url req) else [])
           @ [LockAdd (cache_key e conf req), Render (args_of req)]
           @ (if status = Stale then [] else [Serve rv])
           @ log_calls conf (if status = Stale then ''update'' else status_name status) (url req)
           @ write_calls e conf (cache_key e conf req) status t rv
           @ [LockDelete (cache_key e conf req)]"
  using assms by (simp add: wrap_calls_eq handler_calls_def pipeline_calls_def)

text \<open>The two ends of the render stage: a rejected render ends the listener between
  \<^verbatim>\<open>SYNC_LOCK.add\<close> and \<^verbatim>\<open>SYNC_LOCK.delete\<close>; a render that returns reaches the delete.\<close>

lemma wrap_render_rejected:
  assumes "matchRule e conf (filtered_request e conf req) = Inr (True, t)"
    and "serveCache e (store w) (sync_lock w) (cache_key e conf req) (forced req) (res w) conf
           = (status, False, res1)"
    and "render e (args_of req) = Inl err"
  shows "fst (wrap e conf req w) = Some err"
    and "cache_key e conf req \<in> sync_lock (snd (wrap e conf req w))"
    and "LockDelete (cache_key e conf req) \<notin> set (wrap_calls e conf req w)"
    and "store (snd (wrap e conf req w)) = store w"
  using assms
  by (auto simp: wrap_render rw_rejected wrap_calls_eq calls_defs log_unless_quiet_eq resolved_def
           split: option.splits)

lemma wrap_render_returned:
  assumes "matchRule e conf (filtered_request e conf req) = Inr (True, t)"
    and "serveCache e (store w) (sync_lock w) (cache_key e conf req) (forced req) (res w) conf
           = (status, False, res1)"
    and "render e (args_of req) = Inr rv"
  shows "fst (wrap e conf req w) = None"
    and "sync_lock (snd (wrap e conf req w)) = sync_lock w - {cache_key e conf req}"
  using assms
  by (simp_all add: wrap_render rw_returned log_unless_quiet_eq resolved_def)

lemma wrap_fst:
  assumes "matchRule e conf (filtered_request e conf req) = Inr (True, t)"
    and "serveCache e (store w) (sync_lock w) (cache_key e conf req) (forced req) (res w) conf
           = (status, stop, res1)"
  shows "fst (wrap e conf req w) =
           (if stop then None
            else case render e (args_of req) of Inl err \<Rightarrow> Some err | Inr rv \<Rightarrow> None)"
proof (cases stop)
  case True
  then show ?thesis
    using wrap_stop [OF assms(1), of w status res1] assms(2) by simp
next
  case False
  then have sc: "serveCache e (store w) (sync_lock w) (cache_key e conf req) (forced req)
                   (res w) conf = (status, False, res1)"
    using assms(2) by simp
  show ?thesis
  proof (cases "render e (args_of req)")
    case (Inl err)
    then show ?thesis
      using False wrap_render_rejected(1) [OF assms(1) sc] by simp
  next
    case (Inr rv)
    then show ?thesis
      using False wrap_render_returned(1) [OF assms(1) sc] by simp
  qed
qed

lemma wrap_stop_store:
  assumes "matchRule e conf (filtered_request e conf req) = Inr (True, t)"
    and "serveCache e (store w) (sync_lock w) (cache_key e conf req) (forced req) (res w) conf
           = (status, True, res1)"
  shows "store (snd (wrap e conf req w)) = store w"
    and "sync_lock (snd (wrap e conf req w)) = sync_lock w"
  using assms by (simp_all add: wrap_stop log_unless_quiet_eq resolved_def)

section \<open>The claims\<close>

text \<open>
  C1. The claim: for every cacheable request that reaches the render stage, the key is
  removed from the single-flight set after the render-and-write step, also when the render
  call rejects. Here the listener is run on a \<^verbatim>\<open>GET\<close> that matches the rule, misses the
  cache, and whose render rejects: the promise rejects with the render's error, the last
  call is the render, \<^verbatim>\<open>SYNC_LOCK.delete\<close> is never called and the key is still in the set.
\<close>

theorem render_rejection_keeps_key_in_sync_lock:
  "fst (wrap (mock_env {}) hello_conf (get_request ''/hello-crash'') empty_world)
     = Some (RenderFailed ''worker exited'')
   \<and> cache_key (mock_env {}) hello_conf (get_request ''/hello-crash'') = ''/hello-crash''
   \<and> ''/hello-crash''
       \<in> sync_lock (snd (wrap (mock_env {}) hello_conf (get_request ''/hello-crash'') empty_world))
   \<and> wrap_calls (mock_env {}) hello_conf (get_request ''/hello-crash'') empty_world
       = [ServeCache ''/hello-crash'' False, LockAdd ''/hello-crash'',
          Render \<lparr>path = ''/hello-crash'', arg_headers = Map.empty, arg_method = ''GET''\<rparr>]"
  by (simp add: wrap_calls_def wrap_def render_and_write_def Let_def mock_defs handler_defs)

text \<open>
  C2, amended. When the render returns anything other than status code 200 with a non-empty
  body, and the cache status is not \<^verbatim>\<open>force\<close>, the listener leaves the Cache Store as it
  was: it calls neither \<^verbatim>\<open>set\<close> nor \<^verbatim>\<open>del\<close>. With the status \<^verbatim>\<open>force\<close> every such
  outcome, a status code other than 200 with a body included, deletes \<^verbatim>\<open>body:<key>\<close> and
  \<^verbatim>\<open>header:<key>\<close>, changes no other record and sets nothing.
\<close>

theorem uncacheable_render_touches_store_only_when_forced:
  assumes "matchRule e conf (filtered_request e conf req) = Inr (True, t)"
    and "serveCache e (store w) (sync_lock w) (cache_key e conf req) (forced req) (res w) conf
           = (status, False, res1)"
    and "render e (args_of req) = Inr rv"
    and "\<not> (statusCode rv = 200 \<and> body rv \<noteq> [])"
  shows "(status \<noteq> Force \<longrightarrow>
            store (snd (wrap e conf req w)) = store w
            \<and> (\<forall>k v t'. CacheSet k v t' \<notin> set (wrap_calls e conf req w))
            \<and> (\<forall>k. CacheDel k \<notin> set (wrap_calls e conf req w)))
     \<and> (status = Force \<longrightarrow>
            store (snd (wrap e conf req w)) =
              (store w)(''body:'' @ cache_key e conf req := None,
                        ''header:'' @ cache_key e conf req := None)
            \<and> CacheDel (''body:'' @ cache_key e conf req) \<in> set (wrap_calls e conf req w)
            \<and> CacheDel (''header:'' @ cache_key e conf req) \<in> set (wrap_calls e conf req w)
            \<and> (\<forall>k v t'. CacheSet k v t' \<notin> set (wrap_calls e conf req w)))"
  using assms
  by (auto simp: wrap_store wrap_write_calls write_calls_def key_builder_calls_def log_calls_def
           split: option.splits)

text \<open>A stale entry whose revalidation renders an empty body stays in the store; a forced
  refresh that renders 500 with a body removes both records.\<close>

theorem uncacheable_render_touches_store_only_when_forced_witness:
  "matchRule (mock_env {''/hello-empty''}) hello_conf
       (filtered_request (mock_env {''/hello-empty''}) hello_conf (get_request ''/hello-empty''))
     = Inr (True, 1 / 2)
   \<and> serveCache (mock_env {''/hello-empty''}) (store (cached_world ''/hello-empty''))
        (sync_lock (cached_world ''/hello-empty''))
        (cache_key (mock_env {''/hello-empty''}) hello_conf (get_request ''/hello-empty''))
        (forced (get_request ''/hello-empty'')) (res (cached_world ''/hello-empty''))
        hello_conf
      = (Stale, False, [\<lparr>statusCode = 200, rv_headers = Map.empty, body = ''gzip:old''\<rparr>])
   \<and> render (mock_env {''/hello-empty''}) (args_of (get_request ''/hello-empty''))
        = Inr \<lparr>statusCode = 200, rv_headers = Map.empty, body = []\<rparr>
   \<and> store (snd (wrap (mock_env {''/hello-empty''}) hello_conf (get_request ''/hello-empty'')
                   (cached_world ''/hello-empty'')))
        = store (cached_world ''/hello-empty'')
   \<and> store (snd (wrap (mock_env {''/hello-empty''}) hello_conf (get_request ''/hello-empty'')
                   (cached_world ''/hello-empty''))) ''body:/hello-empty''
        = Some (''gzip:old'', 1 / 2)
   \<and> serveCache (mock_env {}) (store (cached_world ''/hello-error''))
        (sync_lock (cached_world ''/hello-error''))
        (cache_key (mock_env {}) hello_conf (update_request ''/hello-error''))
        (forced (update_request ''/hello-error'')) (res (cached_world ''/hello-error''))
        hello_conf = (Force, False, [])
   \<and> render (mock_env {}) (args_of (update_request ''/hello-error''))
        = Inr \<lparr>statusCode = 500, rv_headers = Map.empty, body = ''error''\<rparr>
   \<and> store (cached_world ''/hello-error'') ''body:/hello-error'' = Some (''gzip:old'', 1 / 2)
   \<and> store (snd (wrap (mock_env {}) hello_conf (update_request ''/hello-error'')
                   (cached_world ''/hello-error''))) ''body:/hello-error'' = None
   \<and> store (snd (wrap (mock_env {}) hello_conf (update_request ''/hello-error'')
                   (cached_world ''/hello-error''))) ''header:/hello-error'' = None
   \<and> CacheDel ''body:/hello-error''
        \<in> set (wrap_calls (mock_env {}) hello_conf (update_request ''/hello-error'')
                  (cached_world ''/hello-error''))"
proof -
  have m: "matchRule (mock_env {''/hello-empty''}) hello_conf
       (filtered_request (mock_env {''/hello-empty''}) hello_conf (get_request ''/hello-empty''))
     = Inr (True, 1 / 2)"
    by (simp add: mock_defs handler_defs)
  have sc: "serveCache (mock_env {''/hello-empty''}) (store (cached_world ''/hello-empty''))
        (sync_lock (cached_world ''/hello-empty''))
        (cache_key (mock_env {''/hello-empty''}) hello_conf (get_request ''/hello-empty''))
        (forced (get_request ''/hello-empty'')) (res (cached_world ''/hello-empty''))
        hello_conf
      = (Stale, False, [\<lparr>statusCode = 200, rv_headers = Map.empty, body = ''gzip:old''\<rparr>])"
    by (simp add: mock_defs handler_defs)
  have r: "render (mock_env {''/hello-empty''}) (args_of (get_request ''/hello-empty''))
        = Inr \<lparr>statusCode = 200, rv_headers = Map.empty, body = []\<rparr>"
    by (simp add: mock_defs handler_defs)
  have o: "\<not> (statusCode \<lparr>statusCode = 200, rv_headers = Map.empty, body = []\<rparr> = 200
              \<and> body \<lparr>statusCode = 200, rv_headers = Map.empty, body = []\<rparr> \<noteq> [])"
    by simp
  have m2: "matchRule (mock_env {}) hello_conf
       (filtered_request (mock_env {}) hello_conf (update_request ''/hello-error''))
     = Inr (True, 1 / 2)"
    by (simp add: mock_defs handler_defs)
  have sc2: "serveCache (mock_env {}) (store (cached_world ''/hello-error''))
        (sync_lock (cached_world ''/hello-error''))
        (cache_key (mock_env {}) hello_conf (update_request ''/hello-error''))
        (forced (update_request ''/hello-error'')) (res (cached_world ''/hello-error''))
        hello_conf = (Force, False, [])"
    by (simp add: mock_defs handler_defs)
  have r2: "render (mock_env {}) (args_of (update_request ''/hello-error''))
        = Inr \<lparr>statusCode = 500, rv_headers = Map.empty, body = ''error''\<rparr>"
    by (simp add: mock_defs handler_defs)
  have o2: "\<not> (statusCode \<lparr>statusCode = 500, rv_headers = Map.empty, body = ''error''\<rparr> = 200
              \<and> body \<lparr>statusCode = 500, rv_headers = Map.empty, body = ''error''\<rparr> \<noteq> [])"
    by simp
  show ?thesis
    using uncacheable_render_touches_store_only_when_forced [OF m sc r o]
          uncacheable_render_touches_store_only_when_forced [OF m2 sc2 r2 o2] m sc r sc2 r2
    by (simp add: mock_defs handler_defs)
qed

text \<open>
  C2 as stated fails on a forced refresh whose render returns 404 with a body: the outcome
  is neither 200 with a body nor \<^verbatim>\<open>force\<close> with an empty body, and the listener deletes
  both records, since line 128 tests the status alone.
\<close>

theorem forced_non_200_render_counterexample:
  "serveCache (mock_env {}) (store (cached_world ''/hello-gone''))
        (sync_lock (cached_world ''/hello-gone''))
        (cache_key (mock_env {}) hello_conf (update_request ''/hello-gone''))
        (forced (update_request ''/hello-gone'')) (res (cached_world ''/hello-gone''))
        hello_conf = (Force, False, [])
   \<and> render (mock_env {}) (args_of (update_request ''/hello-gone''))
        = Inr \<lparr>statusCode = 404, rv_headers = Map.empty, body = ''not found''\<rparr>
   \<and> store (cached_world ''/hello-gone'') ''body:/hello-gone'' = Some (''gzip:old'', 1 / 2)
   \<and> store (snd (wrap (mock_env {}) hello_conf (update_request ''/hello-gone'')
                   (cached_world ''/hello-gone''))) ''body:/hello-gone'' = None
   \<and> store (snd (wrap (mock_env {}) hello_conf (update_request ''/hello-gone'')
                   (cached_world ''/hello-gone''))) ''header:/hello-gone'' = None
   \<and> wrap_calls (mock_env {}) hello_conf (update_request ''/hello-gone'')
        (cached_world ''/hello-gone'')
      = [ServeCache ''/hello-gone'' True, LockAdd ''/hello-gone'',
         Render (args_of (update_request ''/hello-gone'')),
         Serve \<lparr>statusCode = 404, rv_headers = Map.empty, body = ''not found''\<rparr>,
         CacheDel ''body:/hello-gone'', CacheDel ''header:/hello-gone'',
         LockDelete ''/hello-gone'']"
  by (simp add: run_defs mock_defs handler_defs)




text \<open>
  C4. Without a \<^verbatim>\<open>cacheKey\<close> builder the key is the filtered URL, and the rule is matched
  on the filtered URL. The run of an unmatched request is the plain handler applied to the
  original request. The run of a matched request is decided by \<^verbatim>\<open>serveCache\<close> at that
  key and, when it does not stop, by the Render Worker applied to the descriptor with the
  original URL (and the headers and the method of the request): its rejection is the
  rejection of the run, its response is the one written and the one stored under the key.
  This holds for every \<open>filterUrl\<close>, plain handler, \<open>serveCache\<close> and Render Worker.
\<close>

theorem key_from_filtered_url_render_with_original_url:
  "(cacheKey conf = None \<longrightarrow> cache_key e conf req = filterUrl e (url req) (paramFilter conf))
   \<and> (\<forall>t. matchRule e conf (req\<lparr>url := filterUrl e (url req) (paramFilter conf)\<rparr>)
              = Inr (False, t) \<longrightarrow>
         fst (wrap e conf req w) = None
         \<and> res (snd (wrap e conf req w)) = plainHandler e req (res w)
         \<and> Plain req \<in> set (wrap_calls e conf req w))
   \<and> (\<forall>t status stop res1.
         matchRule e conf (req\<lparr>url := filterUrl e (url req) (paramFilter conf)\<rparr>)
           = Inr (True, t) \<longrightarrow>
         serveCache e (store w) (sync_lock w) (cache_key e conf req) (forced req) (res w) conf
           = (status, stop, res1) \<longrightarrow>
         (stop \<longrightarrow> fst (wrap e conf req w) = None \<and> res (snd (wrap e conf req w)) = res1
                  \<and> store (snd (wrap e conf req w)) = store w)
         \<and> (\<not> stop \<longrightarrow>
              (\<forall>err. render e \<lparr>path = url req, arg_headers = headers req,
                                arg_method = req_method req\<rparr> = Inl err \<longrightarrow>
                 fst (wrap e conf req w) = Some err)
              \<and> (\<forall>rv. render e \<lparr>path = url req, arg_headers = headers req,
                                 arg_method = req_method req\<rparr> = Inr rv \<longrightarrow>
                 fst (wrap e conf req w) = None
                 \<and> res (snd (wrap e conf req w)) = (if status = Stale then res1 else res1 @ [rv])
                 \<and> (statusCode rv = 200 \<and> body rv \<noteq> [] \<longrightarrow>
                      store (snd (wrap e conf req w)) (''body:'' @ cache_key e conf req)
                        = Some (buf e conf rv, t)))
              \<and> Render \<lparr>path = url req, arg_headers = headers req,
                         arg_method = req_method req\<rparr> \<in> set (wrap_calls e conf req w)))
   \<and> (\<forall>a. Render a \<in> set (wrap_calls e conf req w) \<longrightarrow>
         a = \<lparr>path = url req, arg_headers = headers req, arg_method = req_method req\<rparr>)
   \<and> (\<forall>r. Plain r \<in> set (wrap_calls e conf req w) \<longrightarrow> r = req)"
proof -
  have key: "cacheKey conf = None \<longrightarrow>
               cache_key e conf req = filterUrl e (url req) (paramFilter conf)"
    by (simp add: cache_key_def filtered_request_def)
  have fr: "req\<lparr>url := filterUrl e (url req) (paramFilter conf)\<rparr> = filtered_request e conf req"
    by (simp add: filtered_request_def)
  have ar: "\<lparr>path = url req, arg_headers = headers req, arg_method = req_method req\<rparr> = args_of req"
    by (simp add: args_of_def)
  have unmatched: "fst (wrap e conf req w) = None
         \<and> res (snd (wrap e conf req w)) = plainHandler e req (res w)
         \<and> Plain req \<in> set (wrap_calls e conf req w)"
    if "matchRule e conf (filtered_request e conf req) = Inr (False, t)" for t
    using wrap_unmatched [OF that, of w] by (simp add: wrap_calls_def)
  have matched: "(stop \<longrightarrow> fst (wrap e conf req w) = None \<and> res (snd (wrap e conf req w)) = res1
                  \<and> store (snd (wrap e conf req w)) = store w)
         \<and> (\<not> stop \<longrightarrow>
              (\<forall>err. render e (args_of req) = Inl err \<longrightarrow> fst (wrap e conf req w) = Some err)
              \<and> (\<forall>rv. render e (args_of req) = Inr rv \<longrightarrow>
                 fst (wrap e conf req w) = None
                 \<and> res (snd (wrap e conf req w)) = (if status = Stale then res1 else res1 @ [rv])
                 \<and> (statusCode rv = 200 \<and> body rv \<noteq> [] \<longrightarrow>
                      store (snd (wrap e conf req w)) (''body:'' @ cache_key e conf req)
                        = Some (buf e conf rv, t)))
              \<and> Render (args_of req) \<in> set (wrap_calls e conf req w))"
    if m: "matchRule e conf (filtered_request e conf req) = Inr (True, t)"
      and sc: "serveCache e (store w) (sync_lock w) (cache_key e conf req) (forced req) (res w)
                 conf = (status, stop, res1)"
    for t status stop res1
  proof (cases stop)
    case True
    then show ?thesis
      using wrap_fst [OF m sc] wrap_res [OF m sc] wrap_stop_store(1) [OF m] sc by simp
  next
    case False
    then have sc': "serveCache e (store w) (sync_lock w) (cache_key e conf req) (forced req)
                      (res w) conf = (status, False, res1)"
      using sc by simp
    have "Render (args_of req) \<in> set (wrap_calls e conf req w)"
      using m sc' by (simp add: wrap_calls_eq handler_calls_def pipeline_calls_def)
    then show ?thesis
      using False wrap_fst [OF m sc] wrap_res [OF m sc] wrap_store [OF m sc']
      by auto
  qed
  have labels: "(\<forall>a. Render a \<in> set (wrap_calls e conf req w) \<longrightarrow> a = args_of req)
                \<and> (\<forall>r. Plain r \<in> set (wrap_calls e conf req w) \<longrightarrow> r = req)"
    by (auto simp: wrap_calls_eq calls_defs split: sum.splits prod.splits option.splits if_splits)
  show ?thesis
    unfolding fr ar using key unmatched matched labels by blast
qed

theorem key_from_filtered_url_render_with_original_url_witness:
  "cacheKey filter_conf = None
   \<and> cache_key (mock_env {}) filter_conf (get_request ''/params?p1=1&p2=2'') = ''/params?p2=2''
   \<and> matchRule (mock_env {}) filter_conf
        ((get_request ''/params?p1=1&p2=2'')
           \<lparr>url := filterUrl (mock_env {}) (url (get_request ''/params?p1=1&p2=2''))
                    (paramFilter filter_conf)\<rparr>)
      = Inr (True, 3600)
   \<and> serveCache (mock_env {}) (store empty_world) (sync_lock empty_world)
        (cache_key (mock_env {}) filter_conf (get_request ''/params?p1=1&p2=2''))
        (forced (get_request ''/params?p1=1&p2=2'')) (res empty_world) filter_conf
      = (Miss, False, [])
   \<and> render (mock_env {})
        \<lparr>path = ''/params?p1=1&p2=2'', arg_headers = Map.empty, arg_method = ''GET''\<rparr>
      = Inr \<lparr>statusCode = 200, rv_headers = Map.empty, body = ''hello''\<rparr>
   \<and> res (snd (wrap (mock_env {}) filter_conf (get_request ''/params?p1=1&p2=2'') empty_world))
      = [\<lparr>statusCode = 200, rv_headers = Map.empty, body = ''hello''\<rparr>]
   \<and> store (snd (wrap (mock_env {}) filter_conf (get_request ''/params?p1=1&p2=2'')
                   empty_world)) ''body:/params?p2=2''
      = Some (''gzip:hello'', 3600)
   \<and> Render \<lparr>path = ''/params?p1=1&p2=2'', arg_headers = Map.empty, arg_method = ''GET''\<rparr>
        \<in> set (wrap_calls (mock_env {}) filter_conf (get_request ''/params?p1=1&p2=2'')
                  empty_world)
   \<and> matchRule (mock_env {}) filter_conf
        ((delete_request ''/params?p1=1&p2=2'')
           \<lparr>url := filterUrl (mock_env {}) (url (delete_request ''/params?p1=1&p2=2''))
                    (paramFilter filter_conf)\<rparr>)
      = Inr (False, - 1)
   \<and> res (snd (wrap (mock_env {}) filter_conf (delete_request ''/params?p1=1&p2=2'')
                 empty_world))
      = plainHandler (mock_env {}) (delete_request ''/params?p1=1&p2=2'') (res empty_world)
   \<and> Plain (delete_request ''/params?p1=1&p2=2'')
        \<in> set (wrap_calls (mock_env {}) filter_conf (delete_request ''/params?p1=1&p2=2'')
                  empty_world)"
proof -
  have k: "cacheKey filter_conf = None" by (simp add: filter_conf_def)
  have m: "matchRule (mock_env {}) filter_conf
        ((get_request ''/params?p1=1&p2=2'')
           \<lparr>url := filterUrl (mock_env {}) (url (get_request ''/params?p1=1&p2=2''))
                    (paramFilter filter_conf)\<rparr>)
      = Inr (True, 3600)"
    by (simp add: mock_defs handler_defs)
  have sc: "serveCache (mock_env {}) (store empty_world) (sync_lock empty_world)
        (cache_key (mock_env {}) filter_conf (get_request ''/params?p1=1&p2=2''))
        (forced (get_request ''/params?p1=1&p2=2'')) (res empty_world) filter_conf
      = (Miss, False, [])"
    by (simp add: mock_defs handler_defs)
  have r: "render (mock_env {})
        \<lparr>path = url (get_request ''/params?p1=1&p2=2''),
         arg_headers = headers (get_request ''/params?p1=1&p2=2''),
         arg_method = req_method (get_request ''/params?p1=1&p2=2'')\<rparr>
      = Inr \<lparr>statusCode = 200, rv_headers = Map.empty, body = ''hello''\<rparr>"
    by (simp add: mock_defs handler_defs)
  have u: "matchRule (mock_env {}) filter_conf
        ((delete_request ''/params?p1=1&p2=2'')
           \<lparr>url := filterUrl (mock_env {}) (url (delete_request ''/params?p1=1&p2=2''))
                    (paramFilter filter_conf)\<rparr>)
      = Inr (False, - 1)"
    by (simp add: mock_defs handler_defs)
  note a = key_from_filtered_url_render_with_original_url
            [where e = "mock_env {}" and conf = filter_conf
               and req = "get_request ''/params?p1=1&p2=2''" and w = empty_world]
  note b = key_from_filtered_url_render_with_original_url
            [where e = "mock_env {}" and conf = filter_conf
               and req = "delete_request ''/params?p1=1&p2=2''" and w = empty_world]
  note a_key = a [THEN conjunct1, rule_format, OF k]
  note a_run = a [THEN conjunct2, THEN conjunct2, THEN conjunct1, rule_format, OF m sc]
  note b_run = b [THEN conjunct2, THEN conjunct1, rule_format, OF u]
  have a1: "cache_key (mock_env {}) filter_conf (get_request ''/params?p1=1&p2=2'')
              = ''/params?p2=2''"
    using a_key by (simp add: mock_defs)
  have a2: "res (snd (wrap (mock_env {}) filter_conf (get_request ''/params?p1=1&p2=2'')
                        empty_world))
              = [\<lparr>statusCode = 200, rv_headers = Map.empty, body = ''hello''\<rparr>]
            \<and> store (snd (wrap (mock_env {}) filter_conf (get_request ''/params?p1=1&p2=2'')
                   empty_world)) (''body:'' @ cache_key (mock_env {}) filter_conf
                                                (get_request ''/params?p1=1&p2=2''))
              = Some (buf (mock_env {}) filter_conf
                        \<lparr>statusCode = 200, rv_headers = Map.empty, body = ''hello''\<rparr>, 3600)
            \<and> Render \<lparr>path = url (get_request ''/params?p1=1&p2=2''),
                        arg_headers = headers (get_request ''/params?p1=1&p2=2''),
                        arg_method = req_method (get_request ''/params?p1=1&p2=2'')\<rparr>
                \<in> set (wrap_calls (mock_env {}) filter_conf
                           (get_request ''/params?p1=1&p2=2'') empty_world)"
    using a_run r by simp
  have b1: "res (snd (wrap (mock_env {}) filter_conf (delete_request ''/params?p1=1&p2=2'')
                 empty_world))
            = plainHandler (mock_env {}) (delete_request ''/params?p1=1&p2=2'') (res empty_world)
          \<and> Plain (delete_request ''/params?p1=1&p2=2'')
              \<in> set (wrap_calls (mock_env {}) filter_conf
                        (delete_request ''/params?p1=1&p2=2'') empty_world)"
    using b_run by simp
  have r': "render (mock_env {})
        \<lparr>path = ''/params?p1=1&p2=2'', arg_headers = Map.empty, arg_method = ''GET''\<rparr>
      = Inr \<lparr>statusCode = 200, rv_headers = Map.empty, body = ''hello''\<rparr>"
    by (simp add: mock_defs)
  have g: "url (get_request ''/params?p1=1&p2=2'') = ''/params?p1=1&p2=2''
           \<and> headers (get_request ''/params?p1=1&p2=2'') = Map.empty
           \<and> req_method (get_request ''/params?p1=1&p2=2'') = ''GET''"
    by (simp add: get_request_def)
  have bf: "buf (mock_env {}) filter_conf
              \<lparr>statusCode = 200, rv_headers = Map.empty, body = ''hello''\<rparr> = ''gzip:hello''"
    by (simp add: mock_defs handler_defs)
  show ?thesis
    using k m sc u a1 a2 b1 r' g bf by simp
qed

text \<open>
  C5. When the render of a matched request returns status code 200 and a non-empty body,
  the listener sets \<^verbatim>\<open>body:<key>\<close> and \<^verbatim>\<open>header:<key>\<close>, both with the TTL that
  \<^verbatim>\<open>matchRule\<close> returned, which is the TTL of a rule that matches; both records are in
  the store afterwards with that TTL, and nothing is deleted.
\<close>

theorem cacheable_render_writes_body_and_header:
  assumes "matchRule e conf (filtered_request e conf req) = Inr (True, t)"
    and "serveCache e (store w) (sync_lock w) (cache_key e conf req) (forced req) (res w) conf
           = (status, False, res1)"
    and "render e (args_of req) = Inr rv"
    and "statusCode rv = 200" and "body rv \<noteq> []"
  shows "store (snd (wrap e conf req w)) (''body:'' @ cache_key e conf req)
           = Some (buf e conf rv, t)
     \<and> store (snd (wrap e conf req w)) (''header:'' @ cache_key e conf req)
           = Some (toBuffer e (headersToSave conf rv), t)
     \<and> CacheSet (''body:'' @ cache_key e conf req) (buf e conf rv) t
           \<in> set (wrap_calls e conf req w)
     \<and> CacheSet (''header:'' @ cache_key e conf req) (toBuffer e (headersToSave conf rv)) t
           \<in> set (wrap_calls e conf req w)
     \<and> (\<forall>k. CacheDel k \<notin> set (wrap_calls e conf req w))
     \<and> (\<exists>r \<in> set (rules conf). rule_matches e (url (filtered_request e conf req)) r \<and> ttl r = t)"
  using assms matchRule_matched [OF assms(1)]
  by (auto simp: wrap_store wrap_write_calls write_calls_def key_builder_calls_def log_calls_def
           split: option.splits)

theorem cacheable_render_writes_body_and_header_witness:
  "matchRule (mock_env {}) hello_conf
       (filtered_request (mock_env {}) hello_conf (get_request ''/hello'')) = Inr (True, 1 / 2)
   \<and> serveCache (mock_env {}) (store empty_world) (sync_lock empty_world)
        (cache_key (mock_env {}) hello_conf (get_request ''/hello''))
        (forced (get_request ''/hello'')) (res empty_world) hello_conf = (Miss, False, [])
   \<and> render (mock_env {}) (args_of (get_request ''/hello''))
        = Inr \<lparr>statusCode = 200, rv_headers = Map.empty, body = ''hello''\<rparr>
   \<and> store (snd (wrap (mock_env {}) hello_conf (get_request ''/hello'') empty_world))
        ''body:/hello'' = Some (''gzip:hello'', 1 / 2)
   \<and> store (snd (wrap (mock_env {}) hello_conf (get_request ''/hello'') empty_world))
        ''header:/hello'' = Some (''{}'', 1 / 2)
   \<and> CacheSet ''body:/hello'' ''gzip:hello'' (1 / 2)
        \<in> set (wrap_calls (mock_env {}) hello_conf (get_request ''/hello'') empty_world)"
proof -
  have m: "matchRule (mock_env {}) hello_conf
       (filtered_request (mock_env {}) hello_conf (get_request ''/hello'')) = Inr (True, 1 / 2)"
    by (simp add: mock_defs handler_defs)
  have sc: "serveCache (mock_env {}) (store empty_world) (sync_lock empty_world)
        (cache_key (mock_env {}) hello_conf (get_request ''/hello''))
        (forced (get_request ''/hello'')) (res empty_world) hello_conf = (Miss, False, [])"
    by (simp add: mock_defs handler_defs)
  have r: "render (mock_env {}) (args_of (get_request ''/hello''))
        = Inr \<lparr>statusCode = 200, rv_headers = Map.empty, body = ''hello''\<rparr>"
    by (simp add: mock_defs handler_defs)
  show ?thesis
    using cacheable_render_writes_body_and_header [OF m sc r] m sc r
    by (simp add: mock_defs handler_defs)
qed

text \<open>
  C6. When the cache status is \<^verbatim>\<open>force\<close> and the render returns an empty body, the
  listener deletes \<^verbatim>\<open>body:<key>\<close> and \<^verbatim>\<open>header:<key>\<close>: both are absent afterwards,
  whatever the store held, and nothing is set.
\<close>

theorem forced_empty_render_deletes_both:
  assumes "matchRule e conf (filtered_request e conf req) = Inr (True, t)"
    and "serveCache e (store w) (sync_lock w) (cache_key e conf req) (forced req) (res w) conf
           = (Force, False, res1)"
    and "render e (args_of req) = Inr rv"
    and "body rv = []"
  shows "store (snd (wrap e conf req w)) (''body:'' @ cache_key e conf req) = None
     \<and> store (snd (wrap e conf req w)) (''header:'' @ cache_key e conf req) = None
     \<and> CacheDel (''body:'' @ cache_key e conf req) \<in> set (wrap_calls e conf req w)
     \<and> CacheDel (''header:'' @ cache_key e conf req) \<in> set (wrap_calls e conf req w)
     \<and> (\<forall>k v t'. CacheSet k v t' \<notin> set (wrap_calls e conf req w))"
  using assms
  by (auto simp: wrap_store wrap_write_calls write_calls_def key_builder_calls_def log_calls_def
           split: option.splits)

theorem forced_empty_render_deletes_both_witness:
  "matchRule (mock_env {}) hello_conf
       (filtered_request (mock_env {}) hello_conf (update_request ''/hello-empty''))
     = Inr (True, 1 / 2)
   \<and> serveCache (mock_env {}) (store (cached_world ''/hello-empty''))
        (sync_lock (cached_world ''/hello-empty''))
        (cache_key (mock_env {}) hello_conf (update_request ''/hello-empty''))
        (forced (update_request ''/hello-empty'')) (res (cached_world ''/hello-empty''))
        hello_conf = (Force, False, [])
   \<and> render (mock_env {}) (args_of (update_request ''/hello-empty''))
        = Inr \<lparr>statusCode = 200, rv_headers = Map.empty, body = []\<rparr>
   \<and> store (cached_world ''/hello-empty'') ''body:/hello-empty'' = Some (''gzip:old'', 1 / 2)
   \<and> store (cached_world ''/hello-empty'') ''header:/hello-empty'' = Some (''{}'', 1 / 2)
   \<and> store (snd (wrap (mock_env {}) hello_conf (update_request ''/hello-empty'')
                   (cached_world ''/hello-empty''))) ''body:/hello-empty'' = None
   \<and> store (snd (wrap (mock_env {}) hello_conf (update_request ''/hello-empty'')
                   (cached_world ''/hello-empty''))) ''header:/hello-empty'' = None
   \<and> CacheDel ''body:/hello-empty''
        \<in> set (wrap_calls (mock_env {}) hello_conf (update_request ''/hello-empty'')
                  (cached_world ''/hello-empty''))"
proof -
  have m: "matchRule (mock_env {}) hello_conf
       (filtered_request (mock_env {}) hello_conf (update_request ''/hello-empty''))
     = Inr (True, 1 / 2)"
    by (simp add: mock_defs handler_defs)
  have sc: "serveCache (mock_env {}) (store (cached_world ''/hello-empty''))
        (sync_lock (cached_world ''/hello-empty''))
        (cache_key (mock_env {}) hello_conf (update_request ''/hello-empty''))
        (forced (update_request ''/hello-empty'')) (res (cached_world ''/hello-empty''))
        hello_conf = (Force, False, [])"
    by (simp add: mock_defs handler_defs)
  have r: "render (mock_env {}) (args_of (update_request ''/hello-empty''))
        = Inr \<lparr>statusCode = 200, rv_headers = Map.empty, body = []\<rparr>"
    by (simp add: mock_defs handler_defs)
  show ?thesis
    using forced_empty_render_deletes_both [OF m sc r] m sc r
    by (simp add: mock_defs handler_defs)
qed

text \<open>
  C7, amended. For a method other than \<^verbatim>\<open>GET\<close> and \<^verbatim>\<open>HEAD\<close>, \<^verbatim>\<open>matchRule\<close> returns
  \<^verbatim>\<open>matched = false\<close> (with TTL -1). For \<^verbatim>\<open>GET\<close> and \<^verbatim>\<open>HEAD\<close> with a non-empty URL and
  rule patterns that compile, it returns \<^verbatim>\<open>matched = true\<close> with the TTL of the first rule,
  in the configured order, whose pattern matches the URL, and \<^verbatim>\<open>matched = false\<close> (TTL 0)
  when no rule matches. On an empty URL it tests no rule and returns \<^verbatim>\<open>matched = false\<close>.
\<close>

theorem matchRule_first_matching_rule:
  "(req_method req \<notin> {''GET'', ''HEAD''} \<longrightarrow> matchRule e conf req = Inr (False, - 1)) \<and>
   (req_method req \<in> {''GET'', ''HEAD''} \<longrightarrow> url req = [] \<longrightarrow> matchRule e conf req = Inr (False, 0)) \<and>
   (req_method req \<in> {''GET'', ''HEAD''} \<longrightarrow> url req \<noteq> [] \<longrightarrow>
    (\<forall>r \<in> set (rules conf). RegExp e (regex r) \<noteq> None) \<longrightarrow>
      matchRule e conf req =
        Inr (case find (rule_matches e (url req)) (rules conf) of
               Some r \<Rightarrow> (True, ttl r) | None \<Rightarrow> (False, 0)))"
  by (auto simp: matchRule_def scan_rules_find scan_rules_empty_url)

theorem matchRule_first_matching_rule_witness:
  "req_method (get_request ''/hello-zip'') \<in> {''GET'', ''HEAD''}
   \<and> url (get_request ''/hello-zip'') \<noteq> []
   \<and> RegExp (mock_env {}) ''/hello.*'' \<noteq> None \<and> RegExp (mock_env {}) ''/.*'' \<noteq> None
   \<and> matchRule (mock_env {}) ordered_conf (get_request ''/hello-zip'') = Inr (True, 1 / 2)
   \<and> matchRule (mock_env {}) ordered_conf (get_request ''/unknown'') = Inr (True, 60)
   \<and> matchRule (mock_env {}) hello_conf (get_request ''/unknown'') = Inr (False, 0)
   \<and> url (get_request []) = []
   \<and> matchRule (mock_env {}) ordered_conf (get_request []) = Inr (False, 0)
   \<and> req_method (delete_request ''/404'') \<notin> {''GET'', ''HEAD''}
   \<and> matchRule (mock_env {}) ordered_conf (delete_request ''/404'') = Inr (False, - 1)"
  using matchRule_first_matching_rule [where e = "mock_env {}" and conf = ordered_conf
          and req = "get_request ''/hello-zip''"]
        matchRule_first_matching_rule [where e = "mock_env {}" and conf = ordered_conf
          and req = "get_request ''/unknown''"]
        matchRule_first_matching_rule [where e = "mock_env {}" and conf = hello_conf
          and req = "get_request ''/unknown''"]
        matchRule_first_matching_rule [where e = "mock_env {}" and conf = ordered_conf
          and req = "delete_request ''/404''"]
        matchRule_first_matching_rule [where e = "mock_env {}" and conf = ordered_conf
          and req = "get_request []"]
  by (simp add: mock_defs rule_matches_def)

text \<open>
  C7 as stated fails on the empty URL: the pattern \<^verbatim>\<open>.*\<close> of the only rule matches it,
  yet \<^verbatim>\<open>matchRule\<close> returns \<^verbatim>\<open>matched = false\<close>, because of the guard
  \<^verbatim>\<open>req.url &&\<close> of line 19.
\<close>

theorem matchRule_empty_url_counterexample:
  "req_method (get_request []) \<in> {''GET'', ''HEAD''}
   \<and> rules params_conf = [\<lparr>regex = ''.*'', ttl = 3600\<rparr>]
   \<and> rule_matches (mock_env {}) (url (get_request [])) \<lparr>regex = ''.*'', ttl = 3600\<rparr>
   \<and> matchRule (mock_env {}) params_conf (get_request []) = Inr (False, 0)
   \<and> matchRule (mock_env {}) params_conf (get_request []) \<noteq> Inr (True, 3600)"
  by (simp add: mock_defs handler_defs)

text \<open>
  C8. For a matched request that is not stopped and whose render returns, the rendered
  response is written to the caller exactly when the status is not \<^verbatim>\<open>stale\<close>. With the
  status \<^verbatim>\<open>stale\<close> the listener calls \<^verbatim>\<open>serve\<close> not at all and the response is as
  \<^verbatim>\<open>serveCache\<close> left it. Hence, when \<^verbatim>\<open>serveCache\<close> writes at most once, and not at all
  where it neither stops nor reports \<^verbatim>\<open>stale\<close> (spec 4.2), the request has at most one
  response write.
\<close>

theorem rendered_response_written_iff_not_stale:
  assumes "matchRule e conf (filtered_request e conf req) = Inr (True, t)"
    and "serveCache e (store w) (sync_lock w) (cache_key e conf req) (forced req) (res w) conf
           = (status, stop, res1)"
  shows "(\<not> stop \<longrightarrow> (\<forall>rv. render e (args_of req) = Inr rv \<longrightarrow>
            (Serve rv \<in> set (wrap_calls e conf req w) \<longleftrightarrow> status \<noteq> Stale)
            \<and> res (snd (wrap e conf req w)) = (if status = Stale then res1 else res1 @ [rv])))
     \<and> (status = Stale \<longrightarrow>
            (\<forall>x. Serve x \<notin> set (wrap_calls e conf req w))
            \<and> res (snd (wrap e conf req w)) = res1)
     \<and> (length res1 \<le> length (res w) + 1 \<longrightarrow> (\<not> stop \<and> status \<noteq> Stale \<longrightarrow> res1 = res w) \<longrightarrow>
            length (res (snd (wrap e conf req w))) \<le> length (res w) + 1)"
  using assms
  by (auto simp: wrap_res wrap_calls_eq calls_defs split: sum.splits option.splits)


theorem rendered_response_written_iff_not_stale_witness:
  "matchRule (mock_env {''/hello''}) hello_conf
       (filtered_request (mock_env {''/hello''}) hello_conf (get_request ''/hello''))
     = Inr (True, 1 / 2)
   \<and> serveCache (mock_env {''/hello''}) (store (cached_world ''/hello''))
        (sync_lock (cached_world ''/hello''))
        (cache_key (mock_env {''/hello''}) hello_conf (get_request ''/hello''))
        (forced (get_request ''/hello'')) (res (cached_world ''/hello'')) hello_conf
      = (Stale, False, [\<lparr>statusCode = 200, rv_headers = Map.empty, body = ''gzip:old''\<rparr>])
   \<and> render (mock_env {''/hello''}) (args_of (get_request ''/hello''))
        = Inr \<lparr>statusCode = 200, rv_headers = Map.empty, body = ''hello''\<rparr>
   \<and> Serve \<lparr>statusCode = 200, rv_headers = Map.empty, body = ''hello''\<rparr>
        \<notin> set (wrap_calls (mock_env {''/hello''}) hello_conf (get_request ''/hello'')
                  (cached_world ''/hello''))
   \<and> res (snd (wrap (mock_env {''/hello''}) hello_conf (get_request ''/hello'')
                 (cached_world ''/hello'')))
        = [\<lparr>statusCode = 200, rv_headers = Map.empty, body = ''gzip:old''\<rparr>]
   \<and> serveCache (mock_env {}) (store empty_world) (sync_lock empty_world)
        (cache_key (mock_env {}) hello_conf (get_request ''/hello''))
        (forced (get_request ''/hello'')) (res empty_world) hello_conf = (Miss, False, [])
   \<and> Serve \<lparr>statusCode = 200, rv_headers = Map.empty, body = ''hello''\<rparr>
        \<in> set (wrap_calls (mock_env {}) hello_conf (get_request ''/hello'') empty_world)
   \<and> res (snd (wrap (mock_env {}) hello_conf (get_request ''/hello'') empty_world))
        = [\<lparr>statusCode = 200, rv_headers = Map.empty, body = ''hello''\<rparr>]
   \<and> length (res (snd (wrap (mock_env {}) hello_conf (get_request ''/hello'') empty_world)))
        \<le> length (res empty_world) + 1"
proof -
  have m1: "matchRule (mock_env {''/hello''}) hello_conf
       (filtered_request (mock_env {''/hello''}) hello_conf (get_request ''/hello''))
     = Inr (True, 1 / 2)"
    by (simp add: mock_defs handler_defs)
  have sc1: "serveCache (mock_env {''/hello''}) (store (cached_world ''/hello''))
        (sync_lock (cached_world ''/hello''))
        (cache_key (mock_env {''/hello''}) hello_conf (get_request ''/hello''))
        (forced (get_request ''/hello'')) (res (cached_world ''/hello'')) hello_conf
      = (Stale, False, [\<lparr>statusCode = 200, rv_headers = Map.empty, body = ''gzip:old''\<rparr>])"
    by (simp add: mock_defs handler_defs)
  have r1: "render (mock_env {''/hello''}) (args_of (get_request ''/hello''))
        = Inr \<lparr>statusCode = 200, rv_headers = Map.empty, body = ''hello''\<rparr>"
    by (simp add: mock_defs handler_defs)
  have m2: "matchRule (mock_env {}) hello_conf
       (filtered_request (mock_env {}) hello_conf (get_request ''/hello'')) = Inr (True, 1 / 2)"
    by (simp add: mock_defs handler_defs)
  have sc2: "serveCache (mock_env {}) (store empty_world) (sync_lock empty_world)
        (cache_key (mock_env {}) hello_conf (get_request ''/hello''))
        (forced (get_request ''/hello'')) (res empty_world) hello_conf = (Miss, False, [])"
    by (simp add: mock_defs handler_defs)
  have r2: "render (mock_env {}) (args_of (get_request ''/hello''))
        = Inr \<lparr>statusCode = 200, rv_headers = Map.empty, body = ''hello''\<rparr>"
    by (simp add: mock_defs handler_defs)
  have e2: "res empty_world = []" by (simp add: mock_defs)
  show ?thesis
    using rendered_response_written_iff_not_stale [OF m1 sc1]
          rendered_response_written_iff_not_stale [OF m2 sc2] m1 sc1 r1 sc2 r2 e2
    by simp
qed

text \<open>
  C9, amended. A request whose method is neither \<^verbatim>\<open>GET\<close> nor \<^verbatim>\<open>HEAD\<close>, or whose
  filtered URL, \<^verbatim>\<open>filterUrl(req.url, conf.paramFilter)\<close>, matches no configured rule, goes
  to the plain handler with the original request; the listener calls neither \<^verbatim>\<open>set\<close>
  nor \<^verbatim>\<open>del\<close>, never adds to the single-flight set, and leaves the store and the set as
  they were.
\<close>

theorem unmatched_request_falls_through:
  assumes "req_method req \<notin> {''GET'', ''HEAD''} \<or>
           (\<forall>r \<in> set (rules conf). \<exists>test. RegExp e (regex r) = Some test
               \<and> \<not> test (filterUrl e (url req) (paramFilter conf)))"
  shows "fst (wrap e conf req w) = None
     \<and> res (snd (wrap e conf req w)) = plainHandler e req (res w)
     \<and> store (snd (wrap e conf req w)) = store w
     \<and> sync_lock (snd (wrap e conf req w)) = sync_lock w
     \<and> wrap_calls e conf req w = key_builder_calls e conf req @ [Plain req]
     \<and> (\<forall>k v t. CacheSet k v t \<notin> set (wrap_calls e conf req w))
     \<and> (\<forall>k. CacheDel k \<notin> set (wrap_calls e conf req w))
     \<and> (\<forall>k. LockAdd k \<notin> set (wrap_calls e conf req w))"
proof -
  have "req_method (filtered_request e conf req) \<notin> {''GET'', ''HEAD''} \<or>
        (\<forall>r \<in> set (rules conf). \<exists>test. RegExp e (regex r) = Some test
            \<and> \<not> test (url (filtered_request e conf req)))"
    using assms by (simp add: filtered_request_def)
  then obtain t where "matchRule e conf (filtered_request e conf req) = Inr (False, t)"
    using matchRule_unmatched by blast
  then have "wrap e conf req w =
     (None, w\<lparr>res := plainHandler e req (res w),
               calls := calls w @ key_builder_calls e conf req @ [Plain req]\<rparr>)"
    by (rule wrap_unmatched)
  then show ?thesis
    by (auto simp: wrap_calls_def key_builder_calls_def split: option.splits)
qed

theorem unmatched_request_falls_through_witness:
  "req_method (delete_request ''/404'') \<notin> {''GET'', ''HEAD''}
   \<and> wrap (mock_env {}) hello_conf (delete_request ''/404'') (cached_world ''/404'')
       = (None, (cached_world ''/404'')
                  \<lparr>res := [\<lparr>statusCode = 404, rv_headers = Map.empty, body = []\<rparr>],
                    calls := [Plain (delete_request ''/404'')]\<rparr>)
   \<and> RegExp (mock_env {}) ''/hello.*'' \<noteq> None
   \<and> \<not> rule_matches (mock_env {})
          (filterUrl (mock_env {}) (url (get_request ''/unknown'')) (paramFilter hello_conf))
          \<lparr>regex = ''/hello.*'', ttl = 1 / 2\<rparr>
   \<and> fst (wrap (mock_env {}) hello_conf (get_request ''/unknown'') empty_world) = None
   \<and> store (snd (wrap (mock_env {}) hello_conf (get_request ''/unknown'') empty_world))
       = store empty_world
   \<and> sync_lock (snd (wrap (mock_env {}) hello_conf (get_request ''/unknown'') empty_world))
       = sync_lock empty_world
   \<and> wrap_calls (mock_env {}) hello_conf (get_request ''/unknown'') empty_world
       = [Plain (get_request ''/unknown'')]"
proof -
  have h1: "req_method (delete_request ''/404'') \<notin> {''GET'', ''HEAD''}"
    by (simp add: mock_defs)
  have h2: "\<forall>r \<in> set (rules hello_conf). \<exists>test. RegExp (mock_env {}) (regex r) = Some test
               \<and> \<not> test (filterUrl (mock_env {}) (url (get_request ''/unknown''))
                           (paramFilter hello_conf))"
    by (simp add: mock_defs)
  note a = unmatched_request_falls_through [where e = "mock_env {}" and conf = hello_conf
             and req = "delete_request ''/404''" and w = "cached_world ''/404''", OF disjI1, OF h1]
  note b = unmatched_request_falls_through [where e = "mock_env {}" and conf = hello_conf
             and req = "get_request ''/unknown''" and w = empty_world, OF disjI2, OF h2]
  show ?thesis
    using a b h1 by (simp add: run_defs mock_defs handler_defs key_builder_calls_def)
qed

text \<open>
  C9 as stated fails where the filter makes a URL match: no rule matches the URL of the
  request \<^verbatim>\<open>/a?p1=1&b=2\<close>, but line 83 tests the filtered \<^verbatim>\<open>/a?b=2\<close>, which the pattern
  \<^verbatim>\<open>a.b\<close> matches; the request is rendered, its key enters the single-flight set and
  both records are set.
\<close>

theorem filtered_url_matches_counterexample:
  "req_method (get_request ''/a?p1=1&b=2'') \<in> {''GET'', ''HEAD''}
   \<and> rules dot_conf = [\<lparr>regex = ''a.b'', ttl = 60\<rparr>]
   \<and> RegExp (mock_env {}) ''a.b'' \<noteq> None
   \<and> \<not> rule_matches (mock_env {}) (url (get_request ''/a?p1=1&b=2''))
          \<lparr>regex = ''a.b'', ttl = 60\<rparr>
   \<and> filterUrl (mock_env {}) (url (get_request ''/a?p1=1&b=2'')) (paramFilter dot_conf)
       = ''/a?b=2''
   \<and> res (snd (wrap (mock_env {}) dot_conf (get_request ''/a?p1=1&b=2'') empty_world))
       = [\<lparr>statusCode = 200, rv_headers = Map.empty, body = ''hello''\<rparr>]
   \<and> res (snd (wrap (mock_env {}) dot_conf (get_request ''/a?p1=1&b=2'') empty_world))
       \<noteq> plainHandler (mock_env {}) (get_request ''/a?p1=1&b=2'') (res empty_world)
   \<and> store (snd (wrap (mock_env {}) dot_conf (get_request ''/a?p1=1&b=2'') empty_world))
        ''body:/a?b=2'' = Some (''gzip:hello'', 60)
   \<and> wrap_calls (mock_env {}) dot_conf (get_request ''/a?p1=1&b=2'') empty_world
       = [ServeCache ''/a?b=2'' False, LockAdd ''/a?b=2'',
          Render \<lparr>path = ''/a?p1=1&b=2'', arg_headers = Map.empty, arg_method = ''GET''\<rparr>,
          Serve \<lparr>statusCode = 200, rv_headers = Map.empty, body = ''hello''\<rparr>,
          CacheSet ''body:/a?b=2'' ''gzip:hello'' 60, CacheSet ''header:/a?b=2'' ''{}'' 60,
          LockDelete ''/a?b=2'']"
  by (simp add: run_defs mock_defs handler_defs)

text \<open>
  C10. The run of a matched request is decided by what \<^verbatim>\<open>serveCache\<close> returns when its
  forced flag is the truth of \<^verbatim>\<open>req.headers['x-cache-status'] === 'update'\<close>: whether the
  run stops, what is written to the caller and what the store holds afterwards, for every
  \<^verbatim>\<open>serveCache\<close>. So the flag is true for the value \<^verbatim>\<open>update\<close> and false for any other
  value, such as \<^verbatim>\<open>force\<close>, and for an absent header.
\<close>

theorem forced_flag_iff_update_header:
  "(\<forall>t status stop res1.
       matchRule e conf (filtered_request e conf req) = Inr (True, t) \<longrightarrow>
       serveCache e (store w) (sync_lock w) (cache_key e conf req)
         (headers req ''x-cache-status'' = Some (HStr ''update'')) (res w) conf
         = (status, stop, res1) \<longrightarrow>
       fst (wrap e conf req w) =
         (if stop then None
          else case render e (args_of req) of Inl err \<Rightarrow> Some err | Inr rv \<Rightarrow> None)
       \<and> res (snd (wrap e conf req w)) =
           (if stop then res1
            else case render e (args_of req) of
                   Inl err \<Rightarrow> res1
                 | Inr rv \<Rightarrow> if status = Stale then res1 else res1 @ [rv])
       \<and> store (snd (wrap e conf req w)) =
           (if stop then store w
            else case render e (args_of req) of
                   Inl err \<Rightarrow> store w
                 | Inr rv \<Rightarrow>
                     if statusCode rv = 200 \<and> body rv \<noteq> [] then
                       (store w)(''body:'' @ cache_key e conf req \<mapsto> (buf e conf rv, t),
                                 ''header:'' @ cache_key e conf req
                                   \<mapsto> (toBuffer e (headersToSave conf rv), t))
                     else if status = Force then
                       (store w)(''body:'' @ cache_key e conf req := None,
                                 ''header:'' @ cache_key e conf req := None)
                     else store w))
   \<and> (\<forall>k b. ServeCache k b \<in> set (wrap_calls e conf req w) \<longrightarrow>
       b = (headers req ''x-cache-status'' = Some (HStr ''update'')))
   \<and> (\<forall>t. matchRule e conf (filtered_request e conf req) = Inr (True, t) \<longrightarrow>
       ServeCache (cache_key e conf req)
         (headers req ''x-cache-status'' = Some (HStr ''update''))
         \<in> set (wrap_calls e conf req w))"
proof -
  have run: "fst (wrap e conf req w) =
         (if stop then None
          else case render e (args_of req) of Inl err \<Rightarrow> Some err | Inr rv \<Rightarrow> None)
       \<and> res (snd (wrap e conf req w)) =
           (if stop then res1
            else case render e (args_of req) of
                   Inl err \<Rightarrow> res1
                 | Inr rv \<Rightarrow> if status = Stale then res1 else res1 @ [rv])
       \<and> store (snd (wrap e conf req w)) =
           (if stop then store w
            else case render e (args_of req) of
                   Inl err \<Rightarrow> store w
                 | Inr rv \<Rightarrow>
                     if statusCode rv = 200 \<and> body rv \<noteq> [] then
                       (store w)(''body:'' @ cache_key e conf req \<mapsto> (buf e conf rv, t),
                                 ''header:'' @ cache_key e conf req
                                   \<mapsto> (toBuffer e (headersToSave conf rv), t))
                     else if status = Force then
                       (store w)(''body:'' @ cache_key e conf req := None,
                                 ''header:'' @ cache_key e conf req := None)
                     else store w)"
    if m: "matchRule e conf (filtered_request e conf req) = Inr (True, t)"
      and sc0: "serveCache e (store w) (sync_lock w) (cache_key e conf req)
         (headers req ''x-cache-status'' = Some (HStr ''update'')) (res w) conf
         = (status, stop, res1)"
    for t status stop res1
  proof -
    have sc: "serveCache e (store w) (sync_lock w) (cache_key e conf req) (forced req) (res w)
                conf = (status, stop, res1)"
      using sc0 by (simp add: forced_def)
    show ?thesis
    proof (cases stop)
      case True
      then show ?thesis
        using wrap_fst [OF m sc] wrap_res [OF m sc] wrap_stop_store(1) [OF m] sc by simp
    next
      case False
      then have sc': "serveCache e (store w) (sync_lock w) (cache_key e conf req) (forced req)
                        (res w) conf = (status, False, res1)"
        using sc by simp
      show ?thesis
      proof (cases "render e (args_of req)")
        case (Inl err)
        then show ?thesis
          using False wrap_fst [OF m sc] wrap_res [OF m sc]
                wrap_render_rejected(4) [OF m sc' Inl]
          by simp
      next
        case (Inr rv)
        then show ?thesis
          using False wrap_fst [OF m sc] wrap_res [OF m sc] wrap_store [OF m sc' Inr]
          by simp
      qed
    qed
  qed
  have labels: "(\<forall>k b. ServeCache k b \<in> set (wrap_calls e conf req w) \<longrightarrow>
       b = (headers req ''x-cache-status'' = Some (HStr ''update'')))
   \<and> (\<forall>t. matchRule e conf (filtered_request e conf req) = Inr (True, t) \<longrightarrow>
       ServeCache (cache_key e conf req)
         (headers req ''x-cache-status'' = Some (HStr ''update''))
         \<in> set (wrap_calls e conf req w))"
    by (auto simp: wrap_calls_eq calls_defs forced_def ex_triple
             split: sum.splits prod.splits option.splits if_splits)
  show ?thesis
    using run labels by blast
qed


theorem forced_flag_iff_update_header_witness:
  "matchRule (mock_env {}) hello_conf
       (filtered_request (mock_env {}) hello_conf (update_request ''/hello'')) = Inr (True, 1 / 2)
   \<and> headers (update_request ''/hello'') ''x-cache-status'' = Some (HStr ''update'')
   \<and> serveCache (mock_env {}) (store (cached_world ''/hello'')) (sync_lock (cached_world ''/hello''))
        (cache_key (mock_env {}) hello_conf (update_request ''/hello'')) True
        (res (cached_world ''/hello'')) hello_conf = (Force, False, [])
   \<and> res (snd (wrap (mock_env {}) hello_conf (update_request ''/hello'') (cached_world ''/hello'')))
       = [\<lparr>statusCode = 200, rv_headers = Map.empty, body = ''hello''\<rparr>]
   \<and> store (snd (wrap (mock_env {}) hello_conf (update_request ''/hello'')
                   (cached_world ''/hello''))) ''body:/hello'' = Some (''gzip:hello'', 1 / 2)
   \<and> ServeCache ''/hello'' True
       \<in> set (wrap_calls (mock_env {}) hello_conf (update_request ''/hello'')
                 (cached_world ''/hello''))
   \<and> headers \<lparr>req_method = ''GET'', url = ''/hello'',
               headers = [''x-cache-status'' \<mapsto> HStr ''force'']\<rparr> ''x-cache-status''
       \<noteq> Some (HStr ''update'')
   \<and> serveCache (mock_env {}) (store (cached_world ''/hello'')) (sync_lock (cached_world ''/hello''))
        (cache_key (mock_env {}) hello_conf
           \<lparr>req_method = ''GET'', url = ''/hello'',
            headers = [''x-cache-status'' \<mapsto> HStr ''force'']\<rparr>) False
        (res (cached_world ''/hello'')) hello_conf
       = (Hit, True, [\<lparr>statusCode = 200, rv_headers = Map.empty, body = ''gzip:old''\<rparr>])
   \<and> res (snd (wrap (mock_env {}) hello_conf
                  \<lparr>req_method = ''GET'', url = ''/hello'',
                   headers = [''x-cache-status'' \<mapsto> HStr ''force'']\<rparr> (cached_world ''/hello'')))
       = [\<lparr>statusCode = 200, rv_headers = Map.empty, body = ''gzip:old''\<rparr>]
   \<and> store (snd (wrap (mock_env {}) hello_conf
                  \<lparr>req_method = ''GET'', url = ''/hello'',
                   headers = [''x-cache-status'' \<mapsto> HStr ''force'']\<rparr> (cached_world ''/hello'')))
       = store (cached_world ''/hello'')"
proof -
  let ?f = "\<lparr>req_method = ''GET'', url = ''/hello'',
              headers = [''x-cache-status'' \<mapsto> HStr ''force'']\<rparr>"
  have m1: "matchRule (mock_env {}) hello_conf
       (filtered_request (mock_env {}) hello_conf (update_request ''/hello'')) = Inr (True, 1 / 2)"
    by (simp add: mock_defs handler_defs)
  have sc1: "serveCache (mock_env {}) (store (cached_world ''/hello''))
        (sync_lock (cached_world ''/hello''))
        (cache_key (mock_env {}) hello_conf (update_request ''/hello''))
        (headers (update_request ''/hello'') ''x-cache-status'' = Some (HStr ''update''))
        (res (cached_world ''/hello'')) hello_conf = (Force, False, [])"
    by (simp add: mock_defs handler_defs)
  have r1: "render (mock_env {}) (args_of (update_request ''/hello''))
        = Inr \<lparr>statusCode = 200, rv_headers = Map.empty, body = ''hello''\<rparr>"
    by (simp add: mock_defs handler_defs)
  have m2: "matchRule (mock_env {}) hello_conf (filtered_request (mock_env {}) hello_conf ?f)
              = Inr (True, 1 / 2)"
    by (simp add: mock_defs handler_defs)
  have sc2: "serveCache (mock_env {}) (store (cached_world ''/hello''))
        (sync_lock (cached_world ''/hello'')) (cache_key (mock_env {}) hello_conf ?f)
        (headers ?f ''x-cache-status'' = Some (HStr ''update''))
        (res (cached_world ''/hello'')) hello_conf
      = (Hit, True, [\<lparr>statusCode = 200, rv_headers = Map.empty, body = ''gzip:old''\<rparr>])"
    by (simp add: mock_defs handler_defs)
  note a = forced_flag_iff_update_header [where e = "mock_env {}" and conf = hello_conf
          and req = "update_request ''/hello''" and w = "cached_world ''/hello''"]
  note b = forced_flag_iff_update_header [where e = "mock_env {}" and conf = hello_conf
          and req = ?f and w = "cached_world ''/hello''"]
  note a_run = a [THEN conjunct1, rule_format, OF m1 sc1]
  note a_call = a [THEN conjunct2, THEN conjunct2, rule_format, OF m1]
  note b_run = b [THEN conjunct1, rule_format, OF m2 sc2]
  have h1: "headers (update_request ''/hello'') ''x-cache-status'' = Some (HStr ''update'')"
    by (simp add: mock_defs)
  have h2: "headers ?f ''x-cache-status'' \<noteq> Some (HStr ''update'')"
    by simp
  have k1: "cache_key (mock_env {}) hello_conf (update_request ''/hello'') = ''/hello''"
    by (simp add: mock_defs handler_defs)
  have a1: "res (snd (wrap (mock_env {}) hello_conf (update_request ''/hello'')
                        (cached_world ''/hello'')))
              = [\<lparr>statusCode = 200, rv_headers = Map.empty, body = ''hello''\<rparr>]"
    using a_run r1 by simp
  have a2: "store (snd (wrap (mock_env {}) hello_conf (update_request ''/hello'')
                   (cached_world ''/hello''))) ''body:/hello'' = Some (''gzip:hello'', 1 / 2)"
    using a_run r1 k1 by (simp add: mock_defs handler_defs)
  have a3: "ServeCache ''/hello'' True
                \<in> set (wrap_calls (mock_env {}) hello_conf (update_request ''/hello'')
                          (cached_world ''/hello''))"
    using a_call h1 k1 by simp
  have b1: "res (snd (wrap (mock_env {}) hello_conf ?f (cached_world ''/hello'')))
              = [\<lparr>statusCode = 200, rv_headers = Map.empty, body = ''gzip:old''\<rparr>]
            \<and> store (snd (wrap (mock_env {}) hello_conf ?f (cached_world ''/hello'')))
              = store (cached_world ''/hello'')"
    using b_run by simp
  show ?thesis
    using a1 a2 a3 b1 m1 sc1 sc2 h1 h2 by simp
qed

end
